theory Spec2Isabelle
  imports Complex_Main
begin

section \<open>Python errors\<close>

text \<open>
  The exceptions that the scripts can meet, as values. A function of the model that can
  raise returns \<open>py_error + 'a\<close>, with \<open>Inl\<close> for the exception.
\<close>

datatype py_error = ZeroDivisionError | AttributeError | ValueError | IndexError
  | WindowError | LibraryError | TypeError | SystemExit int

section \<open>Grid window partitioner\<close>

text \<open>
  Both windowed scripts (\<open>2_procesar_ndvi_por_categoria.py\<close>, lines 119 to 147, and
  \<open>6_recortar_mnc_y_combinar.py\<close>, lines 114 to 148) run the same double loop. Python
  integers are unbounded, so they are \<open>int\<close>; Python's \<open>//\<close> rounds to minus
  infinity, as \<open>div\<close> on \<open>int\<close> does. A window is the quadruple
  \<open>(row_start, row_end, col_start, col_end)\<close> of the loop body.
\<close>

type_synonym ventana = "int \<times> int \<times> int \<times> int"

definition n_chunks :: "int \<Rightarrow> int \<Rightarrow> int" where
  "n_chunks n chunk_size = (n + chunk_size - 1) div chunk_size"

text \<open>\<open>range(n)\<close>: empty when \<open>n\<close> is not positive.\<close>

definition py_range :: "int \<Rightarrow> int list" where
  "py_range n = map int [0..<nat n]"

definition limites :: "int \<Rightarrow> int \<Rightarrow> int \<Rightarrow> int \<Rightarrow> int \<Rightarrow> ventana" where
  "limites height width chunk_size i j =
     (i * chunk_size, min ((i + 1) * chunk_size) height,
      j * chunk_size, min ((j + 1) * chunk_size) width)"

text \<open>The guard of the loop body: a window of no extent is passed over.\<close>

fun ventana_vacia :: "ventana \<Rightarrow> bool" where
  "ventana_vacia (row_start, row_end, col_start, col_end) =
     (row_end \<le> row_start \<or> col_end \<le> col_start)"

definition fila_ventanas :: "int \<Rightarrow> int \<Rightarrow> int \<Rightarrow> int \<Rightarrow> ventana list" where
  "fila_ventanas height width chunk_size i =
     filter (\<lambda>v. \<not> ventana_vacia v)
       (map (limites height width chunk_size i) (py_range (n_chunks width chunk_size)))"

text \<open>
  The sequence of windows that reach the loop body's work, in the order of the loops.
  A chunk size of zero raises at the first \<open>//\<close>.
\<close>

definition particion :: "int \<Rightarrow> int \<Rightarrow> int \<Rightarrow> py_error + ventana list" where
  "particion height width chunk_size =
     (if chunk_size = 0 then Inl ZeroDivisionError
      else Inr (concat (map (fila_ventanas height width chunk_size)
                  (py_range (n_chunks height chunk_size)))))"

fun pixeles :: "ventana \<Rightarrow> (int \<times> int) set" where
  "pixeles (row_start, row_end, col_start, col_end) =
     {row_start..<row_end} \<times> {col_start..<col_end}"

section \<open>Floating-point values\<close>

text \<open>
  A float of the scripts is NaN, an infinity or a finite real. The special values follow
  IEEE 754 (NaN differs from everything, itself included; the sum of opposite infinities is
  NaN); the rounding of finite results is not modelled. \<open>np.mean\<close> of a list is its sum
  over its length, and NaN for the empty list.
\<close>

datatype flt = NaN | PInf | MInf | Fin real

fun isnan :: "flt \<Rightarrow> bool" where
  "isnan NaN = True"
| "isnan _ = False"

definition flt_ne :: "flt \<Rightarrow> flt \<Rightarrow> bool" where
  "flt_ne a b = (isnan a \<or> isnan b \<or> a \<noteq> b)"

fun fadd :: "flt \<Rightarrow> flt \<Rightarrow> flt" where
  "fadd NaN _ = NaN"
| "fadd _ NaN = NaN"
| "fadd PInf MInf = NaN"
| "fadd MInf PInf = NaN"
| "fadd PInf _ = PInf"
| "fadd _ PInf = PInf"
| "fadd MInf _ = MInf"
| "fadd _ MInf = MInf"
| "fadd (Fin a) (Fin b) = Fin (a + b)"

fun fdiv_n :: "flt \<Rightarrow> nat \<Rightarrow> flt" where
  "fdiv_n (Fin a) n = Fin (a / real n)"
| "fdiv_n x n = x"

definition np_sum :: "flt list \<Rightarrow> flt" where
  "np_sum xs = foldl fadd (Fin 0) xs"

definition np_mean :: "flt list \<Rightarrow> flt" where
  "np_mean xs = (if xs = [] then NaN else fdiv_n (np_sum xs) (length xs))"

section \<open>Zonal accumulator\<close>

text \<open>
  Lines 236 to 255 of \<open>2_procesar_ndvi_por_categoria.py\<close>. \<open>resultados\<close> is the
  \<open>defaultdict(list)\<close> of line 111, a map from category code to the samples gathered
  so far. A block is the list of its rows; boolean indexing reads it in row-major order.
  Blocks of different shapes make the \<open>&\<close> of line 247 raise, which the handler of line
  260 catches: the accumulator is left as it was at that point.
\<close>

type_synonym resultados = "int \<Rightarrow> flt list option"

definition misma_forma :: "'a list list \<Rightarrow> 'b list list \<Rightarrow> bool" where
  "misma_forma a b = (map length a = map length b)"

definition ndvi_valid :: "flt option \<Rightarrow> flt \<Rightarrow> bool" where
  "ndvi_valid nodata x =
     (\<not> isnan x \<and> (case nodata of None \<Rightarrow> True | Some nd \<Rightarrow> flt_ne x nd))"

definition mascara :: "int list list \<Rightarrow> flt list list \<Rightarrow> flt option \<Rightarrow> int \<Rightarrow> bool list" where
  "mascara inta_chunk ndvi_chunk nodata cat_val =
     map (\<lambda>(c, x). c = cat_val \<and> ndvi_valid nodata x)
       (zip (concat inta_chunk) (concat ndvi_chunk))"

definition seleccion :: "'a list \<Rightarrow> bool list \<Rightarrow> 'a list" where
  "seleccion xs sel = map fst (filter snd (zip xs sel))"

definition dict_extend :: "resultados \<Rightarrow> int \<Rightarrow> flt list \<Rightarrow> resultados" where
  "dict_extend res k vs = res(k \<mapsto> (case res k of None \<Rightarrow> [] | Some old \<Rightarrow> old) @ vs)"

definition acumular_categoria ::
  "int list list \<Rightarrow> flt list list \<Rightarrow> flt option \<Rightarrow> resultados \<Rightarrow> int \<Rightarrow> py_error + resultados" where
  "acumular_categoria inta_chunk ndvi_chunk nodata res cat_val =
     (if \<not> misma_forma inta_chunk ndvi_chunk then Inl ValueError
      else let msk = mascara inta_chunk ndvi_chunk nodata cat_val in
        if True \<in> set msk then
          let ndvi_values = seleccion (concat ndvi_chunk) msk;
              ndvi_values = filter (\<lambda>x. \<not> isnan x) ndvi_values
          in if length ndvi_values > 0 then Inr (dict_extend res cat_val ndvi_values) else Inr res
        else Inr res)"

fun acumular ::
  "int list list \<Rightarrow> flt list list \<Rightarrow> flt option \<Rightarrow> int list \<Rightarrow> int list \<Rightarrow> resultados
     \<Rightarrow> resultados \<times> py_error option" where
  "acumular inta_chunk ndvi_chunk nodata exclude_values [] res = (res, None)"
| "acumular inta_chunk ndvi_chunk nodata exclude_values (cat_val # cats) res =
     (if cat_val \<in> set exclude_values
      then acumular inta_chunk ndvi_chunk nodata exclude_values cats res
      else case acumular_categoria inta_chunk ndvi_chunk nodata res cat_val of
             Inl e \<Rightarrow> (res, Some e)
           | Inr res' \<Rightarrow> acumular inta_chunk ndvi_chunk nodata exclude_values cats res')"

text \<open>
  Lines 269 to 277, the final loop, and \<open>promedios.get(cat, np.nan)\<close> of line 327.
\<close>

definition promedios_de :: "resultados \<Rightarrow> (int \<Rightarrow> flt option)" where
  "promedios_de res =
     (\<lambda>cat_val. case res cat_val of
        None \<Rightarrow> None
      | Some valores \<Rightarrow> Some (if length valores > 0 then np_mean valores else NaN))"

definition dict_get :: "('k \<Rightarrow> 'v option) \<Rightarrow> 'k \<Rightarrow> 'v \<Rightarrow> 'v" where
  "dict_get d k dflt = (case d k of None \<Rightarrow> dflt | Some v \<Rightarrow> v)"

section \<open>Rasters, windows and the geospatial library\<close>

text \<open>
  The scripts call rasterio and numpy, whose code is not part of the repository. The
  window and transform arithmetic is written out here as those libraries document it, over
  the reals; what depends on map projections or on GDAL's warper is left as a parameter of
  the model, gathered in the record \<open>entorno\<close> below.

  An affine transform takes pixel coordinates \<open>(col, row)\<close> to
  \<open>(a * col + b * row + c, d * col + e * row + f)\<close>.
\<close>

type_synonym crs = string
type_synonym bounds = "real \<times> real \<times> real \<times> real"

record affine =
  af_a :: real
  af_b :: real
  af_c :: real
  af_d :: real
  af_e :: real
  af_f :: real

definition aplicar :: "affine \<Rightarrow> real \<times> real \<Rightarrow> real \<times> real" where
  "aplicar T p = (af_a T * fst p + af_b T * snd p + af_c T,
                  af_d T * fst p + af_e T * snd p + af_f T)"

definition determinante :: "affine \<Rightarrow> real" where
  "determinante T = af_a T * af_e T - af_b T * af_d T"

definition aplicar_inversa :: "affine \<Rightarrow> real \<times> real \<Rightarrow> real \<times> real" where
  "aplicar_inversa T p =
     ((af_e T * (fst p - af_c T) - af_b T * (snd p - af_f T)) / determinante T,
      (af_a T * (snd p - af_f T) - af_d T * (fst p - af_c T)) / determinante T)"

record 'a window =
  col_off :: 'a
  row_off :: 'a
  w_width :: 'a
  w_height :: 'a

definition Window :: "'a \<Rightarrow> 'a \<Rightarrow> 'a \<Rightarrow> 'a \<Rightarrow> 'a window" where
  "Window c r w h = \<lparr>col_off = c, row_off = r, w_width = w, w_height = h\<rparr>"

definition window_real :: "int window \<Rightarrow> real window" where
  "window_real w = Window (real_of_int (col_off w)) (real_of_int (row_off w))
                          (real_of_int (w_width w)) (real_of_int (w_height w))"

text \<open>
  \<open>rasterio.windows.bounds(window, transform)\<close>: the transform applied to the lower left
  and the upper right corner of the window, giving \<open>(left, bottom, right, top)\<close>.
  \<open>rasterio.windows.from_bounds(left, bottom, right, top, transform)\<close>: raises
  \<open>WindowError\<close> when the bounds and the transform's pixel sizes disagree in sign, takes
  the four corners of the box through the inverse transform and returns the window that
  spans them, with lengths that are never negative.
\<close>

definition windows_bounds :: "real window \<Rightarrow> affine \<Rightarrow> bounds" where
  "windows_bounds w T =
     (let row_min = row_off w; row_max = row_min + w_height w;
          col_min = col_off w; col_max = col_min + w_width w;
          (left, bottom) = aplicar T (col_min, row_max);
          (right, top') = aplicar T (col_max, row_min)
      in (left, bottom, right, top'))"

definition windows_from_bounds :: "bounds \<Rightarrow> affine \<Rightarrow> py_error + real window" where
  "windows_from_bounds bnd T =
     (case bnd of (left, bottom, right, top') \<Rightarrow>
        if af_a T = 0 then Inl ZeroDivisionError
        else if (right - left) / af_a T < 0 then Inl WindowError
        else if af_e T = 0 then Inl ZeroDivisionError
        else if (bottom - top') / af_e T < 0 then Inl WindowError
        else if determinante T = 0 then Inl LibraryError
        else
          let pts = map (aplicar_inversa T)
                      [(left, top'), (right, top'), (right, bottom), (left, bottom)];
              cols = map fst pts; rows = map snd pts;
              row_start = Min (set rows); row_stop = Max (set rows);
              col_start = Min (set cols); col_stop = Max (set cols)
          in Inr (Window col_start row_start
                    (max (col_stop - col_start) 0) (max (row_stop - row_start) 0)))"

text \<open>
  \<open>rasterio.transform.from_bounds(west, south, east, north, width, height)\<close>: the
  north-up transform of a grid of that size on that box; a zero size divides by zero.
\<close>

definition transform_from_bounds ::
  "real \<Rightarrow> real \<Rightarrow> real \<Rightarrow> real \<Rightarrow> real \<Rightarrow> real \<Rightarrow> py_error + affine" where
  "transform_from_bounds west south east north width height =
     (if width = 0 \<or> height = 0 then Inl ZeroDivisionError
      else Inr \<lparr>af_a = (east - west) / width, af_b = 0, af_c = west,
                af_d = 0, af_e = (south - north) / height, af_f = north\<rparr>)"

text \<open>
  What \<open>rasterio.windows.intersect\<close> hands back is kept as a Python value: the scripts
  read \<open>.width\<close> and \<open>.height\<close> of it and pass it to \<open>read\<close>, which a window
  supports and a \<open>bool\<close> does not.
\<close>

datatype pyval = PyBool bool | PyWindow "int window"

fun attr_width :: "pyval \<Rightarrow> py_error + int" where
  "attr_width (PyWindow w) = Inr (w_width w)"
| "attr_width (PyBool b) = Inl AttributeError"

fun attr_height :: "pyval \<Rightarrow> py_error + int" where
  "attr_height (PyWindow w) = Inr (w_height w)"
| "attr_height (PyBool b) = Inl AttributeError"

fun como_ventana :: "pyval \<Rightarrow> py_error + int window" where
  "como_ventana (PyWindow w) = Inr w"
| "como_ventana (PyBool b) = Inl AttributeError"

text \<open>
  An open dataset: its size, CRS, transform, nodata value and pixels (row, then column).
  \<open>read(1, window=w)\<close> gives the rows and columns of the window. Reads that fail, and
  reads outside the grid, are not modelled.
\<close>

record 'a raster =
  r_height :: int
  r_width :: int
  r_crs :: crs
  r_transform :: affine
  r_nodata :: "flt option"
  r_datos :: "int \<Rightarrow> int \<Rightarrow> 'a"

definition leer :: "'a raster \<Rightarrow> int window \<Rightarrow> 'a list list" where
  "leer src w =
     map (\<lambda>i. map (\<lambda>j. r_datos src i j) [col_off w .. col_off w + w_width w - 1])
       [row_off w .. row_off w + w_height w - 1]"

datatype resampling = Nearest | Bilinear

text \<open>
  The parameters of the model:
  \<^item> \<open>transform_bounds\<close> is \<open>rasterio.warp.transform_bounds\<close>, the box of a box in
    another CRS, which may raise;
  \<^item> \<open>op_lengths\<close> and \<open>op_offsets\<close> are the roundings of \<open>round_lengths()\<close> and
    \<open>round_offsets()\<close>, which differ between versions of the library;
  \<^item> \<open>intersect\<close> is \<open>rasterio.windows.intersect\<close>;
  \<^item> \<open>coordenadas\<close> gives, for the pixel in row \<open>i\<close> and column \<open>j\<close> of the
    destination grid, the point \<open>(col, row)\<close> of the source grid under its centre, when
    there is one;
  \<^item> \<open>interpolar\<close> is the bilinear kernel's value at such a point;
  \<^item> \<open>memoria\<close> is what freshly allocated memory holds, which is what \<open>np.empty\<close>
    returns.
\<close>

record entorno =
  transform_bounds :: "crs \<Rightarrow> crs \<Rightarrow> bounds \<Rightarrow> py_error + bounds"
  op_lengths :: "real \<Rightarrow> int"
  op_offsets :: "real \<Rightarrow> int"
  intersect :: "int window \<Rightarrow> int window \<Rightarrow> py_error + pyval"
  coordenadas :: "affine \<Rightarrow> crs \<Rightarrow> affine \<Rightarrow> crs \<Rightarrow> nat \<Rightarrow> nat \<Rightarrow> (real \<times> real) option"
  interpolar :: "flt list list \<Rightarrow> real \<times> real \<Rightarrow> flt"
  memoria :: "nat \<Rightarrow> nat \<Rightarrow> flt"

definition redondear :: "entorno \<Rightarrow> real window \<Rightarrow> int window" where
  "redondear env w = Window (op_offsets env (col_off w)) (op_offsets env (row_off w))
                            (op_lengths env (w_width w)) (op_lengths env (w_height w))"

definition bloque :: "nat \<Rightarrow> nat \<Rightarrow> (nat \<Rightarrow> nat \<Rightarrow> 'a) \<Rightarrow> 'a list list" where
  "bloque filas columnas f = map (\<lambda>i. map (\<lambda>j. f i j) [0..<columnas]) [0..<filas]"

definition np_empty :: "entorno \<Rightarrow> int \<Rightarrow> int \<Rightarrow> flt list list" where
  "np_empty env filas columnas = bloque (nat filas) (nat columnas) (memoria env)"

definition np_zeros :: "int \<Rightarrow> int \<Rightarrow> flt list list" where
  "np_zeros filas columnas = bloque (nat filas) (nat columnas) (\<lambda>i j. Fin 0)"

text \<open>
  \<open>rasterio.warp.reproject(source, destination, ...)\<close> with its defaults
  (\<open>init_dest_nodata=True\<close>, no \<open>dst_nodata\<close>, so fill value 0): the destination is
  first set to the fill value, then every destination pixel whose centre falls on the source
  block receives the kernel's value there. The nearest-neighbour kernel copies the source
  pixel that holds the point. Of the destination passed in, only the shape is used.
\<close>

definition cubierto :: "'a list list \<Rightarrow> real \<times> real \<Rightarrow> bool" where
  "cubierto source p =
     (0 \<le> snd p \<and> nat \<lfloor>snd p\<rfloor> < length source \<and>
      0 \<le> fst p \<and> nat \<lfloor>fst p\<rfloor> < length (source ! nat \<lfloor>snd p\<rfloor>))"

definition remuestrear ::
  "entorno \<Rightarrow> resampling \<Rightarrow> flt list list \<Rightarrow> (real \<times> real) option \<Rightarrow> flt option" where
  "remuestrear env resampling source q =
     (case q of
        None \<Rightarrow> None
      | Some p \<Rightarrow>
          if cubierto source p
          then Some (case resampling of
                       Nearest \<Rightarrow> source ! nat \<lfloor>snd p\<rfloor> ! nat \<lfloor>fst p\<rfloor>
                     | Bilinear \<Rightarrow> interpolar env source p)
          else None)"

definition reproject ::
  "entorno \<Rightarrow> flt list list \<Rightarrow> flt list list \<Rightarrow> affine \<Rightarrow> crs \<Rightarrow> affine \<Rightarrow> crs
     \<Rightarrow> resampling \<Rightarrow> flt list list" where
  "reproject env source destination src_transform src_crs dst_transform dst_crs resampling =
     map (\<lambda>i. map (\<lambda>j.
            case remuestrear env resampling source
                   (coordenadas env src_transform src_crs dst_transform dst_crs i j) of
              Some v \<Rightarrow> v
            | None \<Rightarrow> Fin 0)
          [0..<length (destination ! i)])
       [0..<length destination]"

text \<open>Sequencing of steps that may raise: the first exception ends the sequence.\<close>

definition bind_e :: "py_error + 'a \<Rightarrow> ('a \<Rightarrow> py_error + 'b) \<Rightarrow> py_error + 'b" where
  "bind_e m f = (case m of Inl e \<Rightarrow> Inl e | Inr x \<Rightarrow> f x)"

section \<open>Script 2: NDVI by category\<close>

text \<open>
  \<open>procesar_ndvi_por_categoria\<close> of \<open>2_procesar_ndvi_por_categoria.py\<close>, lines 99 to
  277, for two open datasets. Lines 124 to 126 decide whether the NDVI raster is read
  directly or reprojected window by window.
\<close>

definition necesita_reproyeccion :: "int raster \<Rightarrow> flt raster \<Rightarrow> bool" where
  "necesita_reproyeccion src_inta src_ndvi =
     (r_crs src_inta \<noteq> r_crs src_ndvi \<or> r_height src_inta \<noteq> r_height src_ndvi
      \<or> r_width src_inta \<noteq> r_width src_ndvi)"

text \<open>
  Lines 187 to 198: a rounded window that leaves the NDVI grid is replaced by the result
  of \<open>rasterio.windows.intersect\<close>, whose \<open>.width\<close> and \<open>.height\<close> are then read.
  \<open>None\<close> stands for the \<open>continue\<close> of line 198.
\<close>

definition fuera_de_limites :: "int window \<Rightarrow> 'a raster \<Rightarrow> bool" where
  "fuera_de_limites w src =
     (col_off w < 0 \<or> row_off w < 0 \<or> col_off w + w_width w > r_width src
      \<or> row_off w + w_height w > r_height src)"

definition ajustar_ventana :: "entorno \<Rightarrow> int window \<Rightarrow> 'a raster \<Rightarrow> py_error + int window option" where
  "ajustar_ventana env ndvi_window src_ndvi =
     (if fuera_de_limites ndvi_window src_ndvi
      then bind_e (intersect env ndvi_window (Window 0 0 (r_width src_ndvi) (r_height src_ndvi)))
        (\<lambda>r. bind_e (attr_width r) (\<lambda>wd. bind_e (attr_height r) (\<lambda>ht.
           if wd \<le> 0 \<or> ht \<le> 0 then Inr None
           else bind_e (como_ventana r) (\<lambda>w. Inr (Some w)))))
      else Inr (Some ndvi_window))"

text \<open>
  Lines 204 to 226 (and 175 to 195, 214 to 234 of script 6): the two local transforms, the
  \<open>np.empty\<close> destination of the reference window's shape, and the call of
  \<open>reproject\<close>.
\<close>

definition reproyectar_chunk ::
  "entorno \<Rightarrow> flt list list \<Rightarrow> int window \<Rightarrow> affine \<Rightarrow> crs \<Rightarrow> bounds \<Rightarrow> crs \<Rightarrow> int \<Rightarrow> int
     \<Rightarrow> resampling \<Rightarrow> py_error + flt list list" where
  "reproyectar_chunk env raw src_window src_tr src_crs bnd dst_crs filas columnas resampling =
     (case windows_bounds (window_real src_window) src_tr of (w0, w1, w2, w3) \<Rightarrow>
      case bnd of (left, bottom, right, top') \<Rightarrow>
        bind_e (transform_from_bounds w0 w1 w2 w3
                  (real_of_int (w_width src_window)) (real_of_int (w_height src_window)))
          (\<lambda>src_transform.
        bind_e (transform_from_bounds left bottom right top'
                  (real_of_int columnas) (real_of_int filas))
          (\<lambda>dst_transform.
             Inr (reproject env raw (np_empty env filas columnas)
                    src_transform src_crs dst_transform dst_crs resampling))))"

text \<open>
  Lines 162 to 226, the body of the inner \<open>try\<close>: \<open>Inr None\<close> is a \<open>continue\<close>,
  \<open>Inl\<close> an exception on its way to the handler of line 230.
\<close>

definition reproyectar_ndvi ::
  "entorno \<Rightarrow> int raster \<Rightarrow> flt raster \<Rightarrow> ventana \<Rightarrow> bounds \<Rightarrow> py_error + flt list list option" where
  "reproyectar_ndvi env src_inta src_ndvi v bnd =
     (case v of (row_start, row_end, col_start, col_end) \<Rightarrow>
      bind_e (transform_bounds env (r_crs src_inta) (r_crs src_ndvi) bnd)
        (\<lambda>ndvi_bounds. case ndvi_bounds of (ndvi_left, ndvi_bottom, ndvi_right, ndvi_top) \<Rightarrow>
           if ndvi_left \<ge> ndvi_right \<or> ndvi_bottom \<ge> ndvi_top then Inr None
           else bind_e (windows_from_bounds ndvi_bounds (r_transform src_ndvi))
             (\<lambda>fw. if w_width fw \<le> 0 \<or> w_height fw \<le> 0 then Inr None
                   else bind_e (ajustar_ventana env (redondear env fw) src_ndvi)
                     (\<lambda>aj. case aj of
                        None \<Rightarrow> Inr None
                      | Some ndvi_window \<Rightarrow>
                          bind_e (reproyectar_chunk env (leer src_ndvi ndvi_window) ndvi_window
                                    (r_transform src_ndvi) (r_crs src_ndvi) bnd (r_crs src_inta)
                                    (row_end - row_start) (col_end - col_start) Bilinear)
                            (\<lambda>ndvi_chunk. Inr (Some ndvi_chunk))))))"

text \<open>
  Lines 146 to 234: the two blocks of a window, or nothing when the window is passed
  over. The handler of line 230 prints and continues, as the explicit skips do.
\<close>

definition alinear_ventana ::
  "entorno \<Rightarrow> int raster \<Rightarrow> flt raster \<Rightarrow> ventana \<Rightarrow> (int list list \<times> flt list list) option" where
  "alinear_ventana env src_inta src_ndvi v =
     (case v of (row_start, row_end, col_start, col_end) \<Rightarrow>
        let window = Window col_start row_start (col_end - col_start) (row_end - row_start);
            inta_chunk = leer src_inta window;
            window_bounds = windows_bounds (window_real window) (r_transform src_inta)
        in if \<not> necesita_reproyeccion src_inta src_ndvi
           then Some (inta_chunk, leer src_ndvi window)
           else (case reproyectar_ndvi env src_inta src_ndvi v window_bounds of
                   Inl e \<Rightarrow> None
                 | Inr None \<Rightarrow> None
                 | Inr (Some ndvi_chunk) \<Rightarrow> Some (inta_chunk, ndvi_chunk)))"

definition procesar_ventana ::
  "entorno \<Rightarrow> int raster \<Rightarrow> flt raster \<Rightarrow> int list \<Rightarrow> int list \<Rightarrow> resultados \<Rightarrow> ventana
     \<Rightarrow> resultados" where
  "procesar_ventana env src_inta src_ndvi categorias exclude_values res v =
     (case alinear_ventana env src_inta src_ndvi v of
        None \<Rightarrow> res
      | Some (inta_chunk, ndvi_chunk) \<Rightarrow>
          fst (acumular inta_chunk ndvi_chunk (r_nodata src_ndvi) exclude_values categorias res))"

text \<open>
  The whole function: the windows in the order of the loops, the accumulator threaded
  through them, then the means. A chunk size of zero raises before the first window.
\<close>

definition procesar_ndvi_por_categoria ::
  "entorno \<Rightarrow> int raster \<Rightarrow> flt raster \<Rightarrow> int list \<Rightarrow> int list \<Rightarrow> int
     \<Rightarrow> py_error + (int \<Rightarrow> flt option)" where
  "procesar_ndvi_por_categoria env src_inta src_ndvi categorias exclude_values chunk_size =
     bind_e (particion (r_height src_inta) (r_width src_inta) chunk_size)
       (\<lambda>ventanas. Inr (promedios_de
          (foldl (procesar_ventana env src_inta src_ndvi categorias exclude_values)
             (\<lambda>k. None) ventanas)))"

text \<open>
  Lines 318 to 337 of \<open>main\<close>: the value appended for a category in one month, NaN when
  the call raised.
\<close>

definition valor_del_mes ::
  "entorno \<Rightarrow> int raster \<Rightarrow> flt raster \<Rightarrow> int list \<Rightarrow> int list \<Rightarrow> int \<Rightarrow> int \<Rightarrow> flt" where
  "valor_del_mes env src_inta src_ndvi categorias exclude_values chunk_size cat =
     (case procesar_ndvi_por_categoria env src_inta src_ndvi categorias exclude_values chunk_size of
        Inl e \<Rightarrow> NaN
      | Inr promedios \<Rightarrow> dict_get promedios cat NaN)"

section \<open>Samples of a category\<close>

text \<open>
  The NDVI values of a pair of blocks, and of a window, that lie on pixels of a category
  and are valid (not NaN, and different from the nodata value when one is set), in
  row-major order. They state which pixels a claim speaks of; the scripts do not compute
  them as such.
\<close>

definition muestras :: "int list list \<Rightarrow> flt list list \<Rightarrow> flt option \<Rightarrow> int \<Rightarrow> flt list" where
  "muestras inta_chunk ndvi_chunk nodata cat_val =
     map snd (filter (\<lambda>(c, x). c = cat_val \<and> ndvi_valid nodata x)
       (zip (concat inta_chunk) (concat ndvi_chunk)))"

definition muestras_ventana ::
  "entorno \<Rightarrow> int raster \<Rightarrow> flt raster \<Rightarrow> int \<Rightarrow> ventana \<Rightarrow> flt list" where
  "muestras_ventana env src_inta src_ndvi cat_val v =
     (case alinear_ventana env src_inta src_ndvi v of
        None \<Rightarrow> []
      | Some (inta_chunk, ndvi_chunk) \<Rightarrow>
          if misma_forma inta_chunk ndvi_chunk
          then muestras inta_chunk ndvi_chunk (r_nodata src_ndvi) cat_val else [])"

fun es_finito :: "flt \<Rightarrow> bool" where
  "es_finito (Fin x) = True"
| "es_finito _ = False"

text \<open>An accumulator all of whose entries are non-empty lists of samples with a property.\<close>

definition sano :: "(flt \<Rightarrow> bool) \<Rightarrow> resultados \<Rightarrow> bool" where
  "sano P res = (\<forall>k vs. res k = Some vs \<longrightarrow> vs \<noteq> [] \<and> (\<forall>x\<in>set vs. P x))"

text \<open>
  What the loops of lines 132 to 255 append to the list of a category code: for each
  window in turn, and for each occurrence of the code in \<open>categorias\<close> that is not
  excluded, the window's samples of the code.
\<close>

definition aportes ::
  "entorno \<Rightarrow> int raster \<Rightarrow> flt raster \<Rightarrow> int list \<Rightarrow> int list \<Rightarrow> ventana \<Rightarrow> int \<Rightarrow> flt list" where
  "aportes env src_inta src_ndvi categorias exclude_values v k =
     concat (map (\<lambda>cat_val. if cat_val = k \<and> cat_val \<notin> set exclude_values
                              then muestras_ventana env src_inta src_ndvi k v else [])
               categorias)"

definition acumuladas ::
  "entorno \<Rightarrow> int raster \<Rightarrow> flt raster \<Rightarrow> int list \<Rightarrow> int list \<Rightarrow> ventana list \<Rightarrow> int
     \<Rightarrow> flt list" where
  "acumuladas env src_inta src_ndvi categorias exclude_values ventanas k =
     concat (map (\<lambda>v. aportes env src_inta src_ndvi categorias exclude_values v k) ventanas)"

text \<open>The dictionary that holds the non-empty lists of a family of lists, and no other key.\<close>

definition como_dict :: "(int \<Rightarrow> flt list) \<Rightarrow> resultados" where
  "como_dict A = (\<lambda>k. if A k = [] then None else Some (A k))"

section \<open>Script 6: MNC season bands\<close>

definition EXCLUDE_VALUES :: "int list" where
  "EXCLUDE_VALUES = [0, 255]"

definition CHUNK_SIZE :: int where
  "CHUNK_SIZE = 2000"

definition astype_float32 :: "int \<Rightarrow> flt" where
  "astype_float32 v = Fin (real_of_int v)"

text \<open>
  Lines 160 to 197 (winter) and 199 to 236 (summer) are the same code on two rasters:
  locate the source window, then either read and reproject it with the nearest-neighbour
  kernel into an \<open>np.empty\<close> block, or take an \<open>np.zeros\<close> block. Python's \<open>and\<close>
  reads \<open>.width\<close> first; on a value with neither attribute both reads raise the same
  error, so reading both before the test changes nothing.
\<close>

definition alinear_mnc ::
  "entorno \<Rightarrow> crs \<Rightarrow> int raster \<Rightarrow> bounds \<Rightarrow> int \<Rightarrow> int \<Rightarrow> py_error + flt list list" where
  "alinear_mnc env ref_crs src bnd filas columnas =
     bind_e (transform_bounds env ref_crs (r_crs src) bnd) (\<lambda>inv_bounds.
     bind_e (windows_from_bounds inv_bounds (r_transform src)) (\<lambda>fw.
     bind_e (intersect env (redondear env fw) (Window 0 0 (r_width src) (r_height src)))
       (\<lambda>inv_window.
     bind_e (attr_width inv_window) (\<lambda>wd.
     bind_e (attr_height inv_window) (\<lambda>ht.
       if wd > 0 \<and> ht > 0
       then bind_e (como_ventana inv_window) (\<lambda>w.
              reproyectar_chunk env (map (map astype_float32) (leer src w)) w
                (r_transform src) (r_crs src) bnd ref_crs filas columnas Nearest)
       else Inr (np_zeros filas columnas))))))"

definition np_isin :: "flt \<Rightarrow> int list \<Rightarrow> bool" where
  "np_isin x vals = list_ex (\<lambda>v. x = Fin (real_of_int v)) vals"

definition banda_binaria :: "flt option \<Rightarrow> flt list list \<Rightarrow> flt list list" where
  "banda_binaria nodata chunk =
     map (map (\<lambda>x. if \<not> np_isin x EXCLUDE_VALUES
                        \<and> (case nodata of None \<Rightarrow> True | Some nd \<Rightarrow> flt_ne x nd)
                     then Fin 1 else Fin 0)) chunk"

text \<open>
  The reference raster has several bands: a pixel of it is the list of its band values.
  A write is the triple of \<open>dst.write(block, band, window=window)\<close>.
\<close>

type_synonym escritura = "nat \<times> int window \<times> flt list list"

definition leer_banda :: "flt list raster \<Rightarrow> nat \<Rightarrow> int window \<Rightarrow> flt list list" where
  "leer_banda src band_idx w = map (map (\<lambda>p. p ! (band_idx - 1))) (leer src w)"

definition procesar_ventana_mnc ::
  "entorno \<Rightarrow> flt list raster \<Rightarrow> nat \<Rightarrow> int raster \<Rightarrow> int raster \<Rightarrow> ventana
     \<Rightarrow> py_error + escritura list" where
  "procesar_ventana_mnc env src_ndvi ref_count src_inv src_ver v =
     (case v of (row_start, row_end, col_start, col_end) \<Rightarrow>
        let window = Window col_start row_start (col_end - col_start) (row_end - row_start);
            bandas_ndvi_chunk = map (\<lambda>band_idx. leer_banda src_ndvi band_idx window)
                                  [1..<ref_count + 1];
            bnd = windows_bounds (window_real window) (r_transform src_ndvi)
        in bind_e (alinear_mnc env (r_crs src_ndvi) src_inv bnd
                     (row_end - row_start) (col_end - col_start)) (\<lambda>inv_chunk.
           bind_e (alinear_mnc env (r_crs src_ndvi) src_ver bnd
                     (row_end - row_start) (col_end - col_start)) (\<lambda>ver_chunk.
             Inr (map (\<lambda>(band_idx, banda_chunk). (band_idx, window, banda_chunk))
                    (zip [1..<ref_count + 1] bandas_ndvi_chunk)
                  @ [(ref_count + 1, window, banda_binaria (r_nodata src_inv) inv_chunk),
                     (ref_count + 2, window, banda_binaria (r_nodata src_ver) ver_chunk)]))))"

text \<open>The handler of line 267 prints and goes on: a window that raised writes nothing.\<close>

definition paso_mnc ::
  "entorno \<Rightarrow> flt list raster \<Rightarrow> nat \<Rightarrow> int raster \<Rightarrow> int raster \<Rightarrow> escritura list \<Rightarrow> ventana
     \<Rightarrow> escritura list" where
  "paso_mnc env src_ndvi ref_count src_inv src_ver escrituras v =
     (case procesar_ventana_mnc env src_ndvi ref_count src_inv src_ver v of
        Inl e \<Rightarrow> escrituras
      | Inr nuevas \<Rightarrow> escrituras @ nuevas)"

definition recortar_mnc_y_combinar ::
  "entorno \<Rightarrow> flt list raster \<Rightarrow> nat \<Rightarrow> int raster \<Rightarrow> int raster \<Rightarrow> py_error + escritura list" where
  "recortar_mnc_y_combinar env src_ndvi ref_count src_inv src_ver =
     bind_e (particion (r_height src_ndvi) (r_width src_ndvi) CHUNK_SIZE)
       (\<lambda>ventanas. Inr (foldl (paso_mnc env src_ndvi ref_count src_inv src_ver) [] ventanas))"

section \<open>Window georeferencer\<close>




section \<open>Script 5: band stacker\<close>

text \<open>
  The reducers are numpy's \<open>nanmedian\<close>, \<open>nanmin\<close>, \<open>nanmax\<close> and \<open>nanstd\<close> along
  axis 0, library functions modelled from their documentation: each drops the NaN values
  of a pixel's stack and reduces what is left, and gives NaN when nothing is left.
  \<open>nanstd\<close> has \<open>ddof = 0\<close>: the population standard deviation.
\<close>

fun flt_le :: "flt \<Rightarrow> flt \<Rightarrow> bool" where
  "flt_le NaN _ = False"
| "flt_le _ NaN = False"
| "flt_le MInf _ = True"
| "flt_le _ PInf = True"
| "flt_le (Fin a) (Fin b) = (a \<le> b)"
| "flt_le _ _ = False"

fun fneg :: "flt \<Rightarrow> flt" where
  "fneg NaN = NaN"
| "fneg PInf = MInf"
| "fneg MInf = PInf"
| "fneg (Fin a) = Fin (- a)"

definition fsub :: "flt \<Rightarrow> flt \<Rightarrow> flt" where
  "fsub a b = fadd a (fneg b)"

fun fcuadrado :: "flt \<Rightarrow> flt" where
  "fcuadrado NaN = NaN"
| "fcuadrado (Fin a) = Fin (a * a)"
| "fcuadrado _ = PInf"

fun fsqrt :: "flt \<Rightarrow> flt" where
  "fsqrt (Fin a) = (if a < 0 then NaN else Fin (sqrt a))"
| "fsqrt PInf = PInf"
| "fsqrt _ = NaN"

definition sin_nan :: "flt list \<Rightarrow> flt list" where
  "sin_nan xs = filter (\<lambda>x. \<not> isnan x) xs"

definition fmin :: "flt \<Rightarrow> flt \<Rightarrow> flt" where
  "fmin a b = (if flt_le b a then b else a)"

definition fmax :: "flt \<Rightarrow> flt \<Rightarrow> flt" where
  "fmax a b = (if flt_le a b then b else a)"

definition nanmin :: "flt list \<Rightarrow> flt" where
  "nanmin xs = (case sin_nan xs of [] \<Rightarrow> NaN | y # ys \<Rightarrow> foldl fmin y ys)"

definition nanmax :: "flt list \<Rightarrow> flt" where
  "nanmax xs = (case sin_nan xs of [] \<Rightarrow> NaN | y # ys \<Rightarrow> foldl fmax y ys)"

fun insertar :: "flt \<Rightarrow> flt list \<Rightarrow> flt list" where
  "insertar x [] = [x]"
| "insertar x (y # ys) = (if flt_le x y then x # y # ys else y # insertar x ys)"

definition ordenar :: "flt list \<Rightarrow> flt list" where
  "ordenar xs = foldr insertar xs []"

definition nanmedian :: "flt list \<Rightarrow> flt" where
  "nanmedian xs =
     (let s = ordenar (sin_nan xs); n = length s
      in if n = 0 then NaN
         else if odd n then s ! (n div 2)
         else np_mean [s ! (n div 2 - 1), s ! (n div 2)])"

definition nanstd :: "flt list \<Rightarrow> flt" where
  "nanstd xs =
     (let vs = sin_nan xs
      in if vs = [] then NaN
         else let m = np_mean vs
              in fsqrt (np_mean (map (\<lambda>x. fcuadrado (fsub x m)) vs)))"

text \<open>A reducer along axis 0 of the stack: at each pixel, over the bands' values there.\<close>

definition eje0 :: "(flt list \<Rightarrow> flt) \<Rightarrow> flt list list list \<Rightarrow> flt list list" where
  "eje0 f stack =
     (case stack of
        [] \<Rightarrow> []
      | d0 # ds \<Rightarrow> map (\<lambda>i. map (\<lambda>j. f (map (\<lambda>d. d ! i ! j) stack)) [0..<length (d0 ! i)])
                    [0..<length d0])"

text \<open>
  What \<open>leer_banda_ndvi\<close> returns for a file: the band and the metadata the script uses.
  A file that cannot be read is the exception it raises.
\<close>

record lectura =
  l_data :: "flt list list"
  l_height :: int
  l_width :: int
  l_crs :: crs
  l_transform :: affine
  l_nodata :: "flt option"

type_synonym archivo = "string \<times> (py_error + lectura)"

definition flt_eq :: "flt \<Rightarrow> flt \<Rightarrow> bool" where
  "flt_eq a b = (\<not> isnan a \<and> \<not> isnan b \<and> a = b)"

definition nodata_a_nan :: "flt \<Rightarrow> flt list list \<Rightarrow> flt list list" where
  "nodata_a_nan nd data = map (map (\<lambda>x. if flt_eq x nd then NaN else x)) data"

definition manejar_nodata :: "flt option \<Rightarrow> lectura \<Rightarrow> flt list list" where
  "manejar_nodata ref_nodata l =
     (case ref_nodata of
        Some nd \<Rightarrow> nodata_a_nan nd (l_data l)
      | None \<Rightarrow> (case l_nodata l of
                   Some nd \<Rightarrow> nodata_a_nan nd (l_data l)
                 | None \<Rightarrow> l_data l))"

text \<open>The reading loop: a file that raises is passed over.\<close>

fun leer_rasters :: "flt option \<Rightarrow> archivo list \<Rightarrow> (string \<times> flt list list) list" where
  "leer_rasters ref_nodata [] = []"
| "leer_rasters ref_nodata ((nombre, Inl e) # resto) = leer_rasters ref_nodata resto"
| "leer_rasters ref_nodata ((nombre, Inr l) # resto) =
     (''NDVI_'' @ nombre, manejar_nodata ref_nodata l) # leer_rasters ref_nodata resto"

definition np_stack :: "flt list list list \<Rightarrow> py_error + flt list list list" where
  "np_stack arrays =
     (case arrays of
        [] \<Rightarrow> Inl ValueError
      | d0 # ds \<Rightarrow> if list_all (\<lambda>d. map length d = map length d0) ds then Inr arrays
                  else Inl ValueError)"

record salida =
  s_height :: int
  s_width :: int
  s_crs :: crs
  s_transform :: affine
  s_bandas :: "(string \<times> flt list list) list"

definition combinar_rasters_ndvi :: "archivo list \<Rightarrow> py_error + salida" where
  "combinar_rasters_ndvi todos_archivos =
     (case todos_archivos of
        [] \<Rightarrow> Inl IndexError
      | (nombre, Inl e) # resto \<Rightarrow> Inl e
      | (nombre, Inr primer) # resto \<Rightarrow>
          let validos = leer_rasters (l_nodata primer) todos_archivos;
              datos_rasters = map snd validos;
              nombres_validos = map fst validos
          in if datos_rasters = [] then Inl (SystemExit 1)
             else bind_e (np_stack datos_rasters) (\<lambda>stack.
               let mediana = eje0 nanmedian stack;
                   minimo = eje0 nanmin stack;
                   maximo = eje0 nanmax stack;
                   desviacion = eje0 nanstd stack;
                   bandas_finales = [mediana, minimo, maximo, desviacion] @ datos_rasters;
                   nombres_finales = [''mediana'', ''min'', ''max'', ''sd''] @ nombres_validos
               in Inr \<lparr>s_height = l_height primer, s_width = l_width primer,
                        s_crs = l_crs primer, s_transform = l_transform primer,
                        s_bandas = zip nombres_finales bandas_finales\<rparr>))"

text \<open>A file list whose members carry another CRS and transform, to state what is never read.\<close>

definition otra_geometria :: "(archivo \<Rightarrow> crs) \<Rightarrow> (archivo \<Rightarrow> affine) \<Rightarrow> archivo \<Rightarrow> archivo" where
  "otra_geometria c t a = (fst a, map_sum id (\<lambda>l. l\<lparr>l_crs := c a, l_transform := t a\<rparr>) (snd a))"

section \<open>Script 9: season clips with the NDVI stack\<close>

definition verificar_recortes ::
  "flt list raster \<Rightarrow> flt raster \<Rightarrow> flt raster \<Rightarrow> py_error + unit" where
  "verificar_recortes src_ndvi src_inv src_ver =
     (if r_width src_inv \<noteq> r_width src_ndvi \<or> r_height src_inv \<noteq> r_height src_ndvi
         \<or> r_width src_ver \<noteq> r_width src_ndvi \<or> r_height src_ver \<noteq> r_height src_ndvi
      then Inl (SystemExit 1)
      else if r_crs src_inv \<noteq> r_crs src_ndvi \<or> r_crs src_ver \<noteq> r_crs src_ndvi
      then Inl (SystemExit 1)
      else Inr ())"

definition leer_todo :: "'a raster \<Rightarrow> 'a list list" where
  "leer_todo src = leer src (Window 0 0 (r_width src) (r_height src))"

definition leer_recorte :: "flt raster \<Rightarrow> flt list list" where
  "leer_recorte src =
     (case r_nodata src of
        Some nd \<Rightarrow> nodata_a_nan nd (leer_todo src)
      | None \<Rightarrow> leer_todo src)"

text \<open>
  Lines 150 to 160: with no nodata value set, the \<open>elif\<close> calls \<open>np.isnan(None)\<close>, which
  raises.
\<close>

definition leer_banda_9 :: "flt list raster \<Rightarrow> nat \<Rightarrow> py_error + flt list list" where
  "leer_banda_9 src_ndvi i =
     (case r_nodata src_ndvi of
        Some nd \<Rightarrow> Inr (nodata_a_nan nd (map (map (\<lambda>p. p ! (i - 1))) (leer_todo src_ndvi)))
      | None \<Rightarrow> Inl TypeError)"

fun leer_bandas_9 :: "flt list raster \<Rightarrow> nat list \<Rightarrow> py_error + flt list list list" where
  "leer_bandas_9 src_ndvi [] = Inr []"
| "leer_bandas_9 src_ndvi (i # resto) =
     bind_e (leer_banda_9 src_ndvi i) (\<lambda>banda.
     bind_e (leer_bandas_9 src_ndvi resto) (\<lambda>bandas. Inr (banda # bandas)))"

definition combinar_recortes_con_ndvi ::
  "flt list raster \<Rightarrow> string list \<Rightarrow> flt raster \<Rightarrow> flt raster
     \<Rightarrow> py_error + (string \<times> flt list list) list" where
  "combinar_recortes_con_ndvi src_ndvi nombres_bandas_ndvi src_inv src_ver =
     bind_e (verificar_recortes src_ndvi src_inv src_ver) (\<lambda>u.
       let banda_invierno = leer_recorte src_inv;
           banda_verano = leer_recorte src_ver
       in bind_e (leer_bandas_9 src_ndvi [1..<length nombres_bandas_ndvi + 1]) (\<lambda>bandas_ndvi.
            Inr (zip ([''invierno'', ''verano''] @ nombres_bandas_ndvi)
                     ([banda_invierno, banda_verano] @ bandas_ndvi))))"

section \<open>A reference environment and small rasters\<close>

text \<open>
  Concrete values on which the model is run. \<open>rasterio.windows.intersect\<close> is
  documented as a test (``True if all windows intersect''), and
  \<open>rasterio.windows.intersection\<close> as the function that returns the common window and
  raises \<open>WindowError\<close> when there is none. \<open>entorno_rasterio\<close> takes the first, as
  the scripts do, with grids that share one CRS, the roundings of rasterio 1.3 and memory
  that holds 7; \<open>entorno_recorte\<close> differs from it by taking the second.
\<close>

definition rasterio_intersect :: "int window \<Rightarrow> int window \<Rightarrow> py_error + pyval" where
  "rasterio_intersect w1 w2 =
     Inr (PyBool
       (max (col_off w1) (col_off w2) < min (col_off w1 + w_width w1) (col_off w2 + w_width w2)
        \<and> max (row_off w1) (row_off w2) < min (row_off w1 + w_height w1) (row_off w2 + w_height w2)))"

definition rasterio_intersection :: "int window \<Rightarrow> int window \<Rightarrow> py_error + pyval" where
  "rasterio_intersection w1 w2 =
     (let c = max (col_off w1) (col_off w2); r = max (row_off w1) (row_off w2);
          w = min (col_off w1 + w_width w1) (col_off w2 + w_width w2) - c;
          h = min (row_off w1 + w_height w1) (row_off w2 + w_height w2) - r
      in if w > 0 \<and> h > 0 then Inr (PyWindow (Window c r w h)) else Inl WindowError)"

definition norte_arriba :: "real \<Rightarrow> real \<Rightarrow> real \<Rightarrow> affine" where
  "norte_arriba res west north =
     \<lparr>af_a = res, af_b = 0, af_c = west, af_d = 0, af_e = - res, af_f = north\<rparr>"

definition entorno_rasterio :: entorno where
  "entorno_rasterio =
     \<lparr>transform_bounds = (\<lambda>src_crs dst_crs b. if src_crs = dst_crs then Inr b else Inl LibraryError),
      op_lengths = (\<lambda>x. \<lfloor>x + 1 / 2\<rfloor>),
      op_offsets = (\<lambda>x. \<lfloor>x + 1 / 1000\<rfloor>),
      intersect = rasterio_intersect,
      coordenadas = (\<lambda>src_transform src_crs dst_transform dst_crs i j.
         if src_crs = dst_crs
         then Some (aplicar_inversa src_transform
                      (aplicar dst_transform (real j + 1 / 2, real i + 1 / 2)))
         else None),
      interpolar = (\<lambda>source p. source ! nat \<lfloor>snd p\<rfloor> ! nat \<lfloor>fst p\<rfloor>),
      memoria = (\<lambda>i j. Fin 7)\<rparr>"

definition entorno_recorte :: entorno where
  "entorno_recorte = entorno_rasterio\<lparr>intersect := rasterio_intersection\<rparr>"

definition raster_de :: "int \<Rightarrow> int \<Rightarrow> affine \<Rightarrow> flt option \<Rightarrow> (int \<Rightarrow> int \<Rightarrow> 'a) \<Rightarrow> 'a raster" where
  "raster_de h w t nd f =
     \<lparr>r_height = h, r_width = w, r_crs = ''EPSG:32721'', r_transform = t, r_nodata = nd,
      r_datos = f\<rparr>"

definition de_lista :: "'a list list \<Rightarrow> int \<Rightarrow> int \<Rightarrow> 'a" where
  "de_lista filas i j = filas ! nat i ! nat j"

definition inta_A :: "int raster" where
  "inta_A = raster_de 4 4 (norte_arriba 1 0 4) None
     (de_lista [[1, 1, 2, 2], [1, 1, 2, 2], [3, 3, 0, 0], [3, 3, 0, 0]])"

definition ndvi_A :: "flt raster" where
  "ndvi_A = raster_de 4 4 (norte_arriba 1 0 4) None
     (\<lambda>i j. if i = 0 \<and> j = 0 then NaN else Fin (1 / 2))"

definition inta_B :: "int raster" where
  "inta_B = raster_de 1 2 (norte_arriba 1 0 1) None (\<lambda>i j. 1)"

definition ndvi_B :: "flt raster" where
  "ndvi_B = raster_de 1 2 (norte_arriba 1 0 1) None (\<lambda>i j. if j = 0 then PInf else MInf)"

definition inta_C :: "int raster" where
  "inta_C = raster_de 2 2 (norte_arriba 1 0 2) None (de_lista [[1, 1], [2, 1]])"

definition ndvi_C :: "flt raster" where
  "ndvi_C = raster_de 2 2 (norte_arriba 1 0 2) (Some (Fin (- 1)))
     (de_lista [[Fin (1 / 5), Fin (2 / 5)], [Fin (9 / 10), Fin (- 1)]])"


definition mnc_fuera :: "int raster" where
  "mnc_fuera = raster_de 1 1 (norte_arriba 1 10 1) None (\<lambda>i j. 5)"

definition mnc_inv :: "int raster" where
  "mnc_inv = raster_de 1 2 (norte_arriba 1 0 1) (Some (Fin 9)) (\<lambda>i j. if j = 0 then 3 else 255)"

definition ndvi_ref :: "flt list raster" where
  "ndvi_ref = raster_de 1 2 (norte_arriba 1 0 1) (Some NaN) (\<lambda>i j. [Fin (3 / 10)])"

definition lectura_de :: "flt list list \<Rightarrow> crs \<Rightarrow> affine \<Rightarrow> lectura" where
  "lectura_de d c t =
     \<lparr>l_data = d, l_height = int (length d), l_width = int (length (hd d)), l_crs = c,
      l_transform = t, l_nodata = None\<rparr>"

definition archivo_B1 :: archivo where
  "archivo_B1 = (''2023-01'',
     Inr (lectura_de [[Fin 1, Fin 2], [Fin 3, Fin 4]] ''EPSG:32721'' (norte_arriba 10 0 20)))"


definition archivo_B3 :: archivo where
  "archivo_B3 = (''2023-03'',
     Inr (lectura_de [[Fin 9, Fin 9], [Fin 9, Fin 9]] ''EPSG:4326'' (norte_arriba 30 500 700)))"

definition archivo_B4 :: archivo where
  "archivo_B4 = (''2023-04'',
     Inr (lectura_de [[Fin 9, Fin 9, Fin 9]] ''EPSG:32721'' (norte_arriba 10 0 20)))"

definition recorte_inv :: "flt raster" where
  "recorte_inv = raster_de 1 2 (norte_arriba 1 0 1) (Some (Fin 255))
     (\<lambda>i j. if j = 0 then Fin 3 else Fin 255)"

definition recorte_ver :: "flt raster" where
  "recorte_ver = raster_de 1 2 (norte_arriba 1 50 1) None (\<lambda>i j. Fin 7)"

definition recorte_ancho :: "flt raster" where
  "recorte_ancho = raster_de 1 3 (norte_arriba 1 0 1) None (\<lambda>i j. Fin 7)"

section \<open>Properties of the partitioner\<close>


lemma le_div_pos_iff:
  fixes i m c :: int
  assumes "0 < c"
  shows "i \<le> m div c \<longleftrightarrow> i * c \<le> m"
proof
  assume "i \<le> m div c"
  then have "i * c \<le> (m div c) * c"
    using assms by (simp add: mult_right_mono)
  also have "\<dots> \<le> m"
    using assms by (metis mult.commute pos_mod_sign mult_div_mod_eq le_add_same_cancel1)
  finally show "i * c \<le> m" .
next
  assume "i * c \<le> m"
  then show "i \<le> m div c"
    using zdiv_mono1 [of "i * c" m c] assms by simp
qed

lemma n_chunks_pos:
  assumes "0 < c"
  shows "n_chunks n c = (n - 1) div c + 1"
proof -
  have "n + c - 1 = (n - 1) + c" by simp
  then show ?thesis
    unfolding n_chunks_def using assms by (metis div_add_self2 less_irrefl)
qed

lemma n_chunks_bound:
  assumes "0 < c"
  shows "i < n_chunks n c \<longleftrightarrow> i * c < n"
  using le_div_pos_iff [OF assms, of i "n - 1"] n_chunks_pos [OF assms, of n]
  by auto

lemma n_chunks_ceiling:
  assumes "0 < c"
  shows "n_chunks n c = \<lceil>real_of_int n / real_of_int c\<rceil>"
proof -
  let ?k = "n_chunks n c"
  have 1: "(?k - 1) * c < n"
    using n_chunks_bound [OF assms, of "?k - 1" n] by simp
  have 2: "n \<le> ?k * c"
    using n_chunks_bound [OF assms, of "?k" n] by simp
  have c: "0 < real_of_int c" using assms by simp
  have "real_of_int ((?k - 1) * c) < real_of_int n" using 1 by linarith
  then have 3: "real_of_int ?k - 1 < real_of_int n / real_of_int c"
    using c by (simp add: pos_less_divide_eq)
  have "real_of_int n \<le> real_of_int (?k * c)" using 2 by linarith
  then have 4: "real_of_int n / real_of_int c \<le> real_of_int ?k"
    using c by (simp add: pos_divide_le_eq)
  show ?thesis using 3 4 by (simp add: ceiling_unique)
qed

lemma div_eq_pos_iff:
  fixes i r c :: int
  assumes "0 < c"
  shows "r div c = i \<longleftrightarrow> i * c \<le> r \<and> r < (i + 1) * c"
  using le_div_pos_iff [OF assms, of i r] le_div_pos_iff [OF assms, of "i + 1" r]
  by auto

lemma pixeles_limites:
  assumes "0 < c"
  shows "(r, q) \<in> pixeles (limites h w c i j) \<longleftrightarrow>
           r div c = i \<and> q div c = j \<and> r < h \<and> q < w"
  using div_eq_pos_iff [OF assms, of r i] div_eq_pos_iff [OF assms, of q j]
  by (auto simp: limites_def)

lemma limites_no_vacia:
  assumes "0 < c" "i < n_chunks h c" "j < n_chunks w c"
  shows "\<not> ventana_vacia (limites h w c i j)"
proof -
  have "i * c < h" "j * c < w"
    using assms n_chunks_bound by auto
  moreover have "i * c < (i + 1) * c" "j * c < (j + 1) * c"
    using assms(1) by (simp_all add: distrib_right)
  ultimately show ?thesis by (simp add: limites_def min_def)
qed

lemma set_py_range: "set (py_range n) = {0..<n}"
proof -
  have "int ` {0..<nat n} = {0..<n}"
  proof (intro set_eqI iffI)
    fix x assume "x \<in> int ` {0..<nat n}"
    then show "x \<in> {0..<n}" by auto
  next
    fix x assume "x \<in> {0..<n}"
    then have "x = int (nat x)" "nat x \<in> {0..<nat n}" by auto
    then show "x \<in> int ` {0..<nat n}" by (rule image_eqI)
  qed
  then show ?thesis by (simp add: py_range_def)
qed

lemma fila_ventanas_eq:
  assumes "0 < c" "i < n_chunks h c"
  shows "fila_ventanas h w c i = map (limites h w c i) (py_range (n_chunks w c))"
proof -
  have "\<not> ventana_vacia v"
    if "v \<in> set (map (limites h w c i) (py_range (n_chunks w c)))" for v
  proof -
    from that obtain j where "j < n_chunks w c" "v = limites h w c i j"
      by (auto simp: set_py_range)
    then show ?thesis using limites_no_vacia [OF assms] by simp
  qed
  then have "\<forall>v\<in>set (map (limites h w c i) (py_range (n_chunks w c))). \<not> ventana_vacia v"
    by blast
  then show ?thesis
    unfolding fila_ventanas_def by (rule filter_True)
qed

lemma concat_map_product:
  "concat (map (\<lambda>x. map (f x) ys) xs) = map (\<lambda>(x, y). f x y) (List.product xs ys)"
  by (induction xs) simp_all

lemma particion_product:
  assumes "0 < c"
  shows "particion h w c =
    Inr (map (\<lambda>(i, j). limites h w c i j)
          (List.product (py_range (n_chunks h c)) (py_range (n_chunks w c))))"
proof -
  have "map (fila_ventanas h w c) (py_range (n_chunks h c)) =
        map (\<lambda>i. map (limites h w c i) (py_range (n_chunks w c))) (py_range (n_chunks h c))"
    by (intro map_cong refl) (simp add: set_py_range fila_ventanas_eq [OF assms])
  then have "concat (map (fila_ventanas h w c) (py_range (n_chunks h c))) =
     map (\<lambda>(i, j). limites h w c i j)
          (List.product (py_range (n_chunks h c)) (py_range (n_chunks w c)))"
    by (simp only: concat_map_product)
  then show ?thesis
    using assms by (simp add: particion_def)
qed

lemma length_py_range: "length (py_range n) = nat n"
  by (simp add: py_range_def)

lemma nth_py_range: "i < nat n \<Longrightarrow> py_range n ! i = int i"
  by (simp add: py_range_def)

lemma particion_pixeles:
  assumes "0 < c" "particion h w c = Inr ws"
  shows "(r, q) \<in> \<Union> (pixeles ` set ws) \<longleftrightarrow> 0 \<le> r \<and> r < h \<and> 0 \<le> q \<and> q < w"
proof -
  have ws: "ws = map (\<lambda>(i, j). limites h w c i j)
          (List.product (py_range (n_chunks h c)) (py_range (n_chunks w c)))"
    using assms particion_product [OF assms(1), of h w] by simp
  have "(r, q) \<in> \<Union> (pixeles ` set ws) \<longleftrightarrow>
        (\<exists>i\<in>{0..<n_chunks h c}. \<exists>j\<in>{0..<n_chunks w c}.
           (r, q) \<in> pixeles (limites h w c i j))"
    unfolding ws by (simp add: set_py_range)
  also have "\<dots> \<longleftrightarrow> (0 \<le> r div c \<and> r div c < n_chunks h c \<and> 0 \<le> q div c \<and>
       q div c < n_chunks w c \<and> r < h \<and> q < w)"
    by (auto simp: pixeles_limites [OF assms(1)])
  also have "\<dots> \<longleftrightarrow> 0 \<le> r \<and> r < h \<and> 0 \<le> q \<and> q < w"
  proof -
    have a: "0 \<le> x div c \<longleftrightarrow> 0 \<le> x" for x
      using assms(1) by (simp add: pos_imp_zdiv_nonneg_iff)
    have b: "x div c < n_chunks n c" if "x < n" for x n
    proof -
      have "(x div c) * c \<le> x"
        using le_div_pos_iff [OF assms(1), of "x div c" x] by simp
      then show ?thesis using that n_chunks_bound [OF assms(1)] by auto
    qed
    show ?thesis using a b by auto
  qed
  finally show ?thesis .
qed

lemma particion_nth:
  assumes "0 < c" "particion h w c = Inr ws"
    and "i < nat (n_chunks h c)" "j < nat (n_chunks w c)"
  shows "ws ! (i * nat (n_chunks w c) + j) = limites h w c (int i) (int j)"
proof -
  let ?nh = "nat (n_chunks h c)" and ?nw = "nat (n_chunks w c)"
  have ws: "ws = map (\<lambda>(i, j). limites h w c i j)
          (List.product (py_range (n_chunks h c)) (py_range (n_chunks w c)))"
    using assms particion_product [OF assms(1), of h w] by simp
  have lt: "i * ?nw + j < ?nh * ?nw"
  proof -
    have "i * ?nw + j < (i + 1) * ?nw" using assms(4) by simp
    also have "\<dots> \<le> ?nh * ?nw" using assms(3) by (intro mult_le_mono1) simp
    finally show ?thesis .
  qed
  have d: "(i * ?nw + j) div ?nw = i" "(i * ?nw + j) mod ?nw = j"
    using assms(4) by simp_all
  show ?thesis
    unfolding ws using lt d assms(3,4)
    by (simp add: length_py_range product_nth nth_py_range)
qed

lemma particion_length:
  assumes "0 < c" "particion h w c = Inr ws"
  shows "length ws = nat (n_chunks h c) * nat (n_chunks w c)"
  using assms particion_product [OF assms(1), of h w]
  by (auto simp: length_py_range)

lemma particion_disjoint:
  assumes "0 < c" "particion h w c = Inr ws"
    and "a < length ws" "b < length ws" "a \<noteq> b"
  shows "pixeles (ws ! a) \<inter> pixeles (ws ! b) = {}"
proof -
  let ?nh = "nat (n_chunks h c)" and ?nw = "nat (n_chunks w c)"
  have len: "length ws = ?nh * ?nw" by (rule particion_length [OF assms(1,2)])
  have nw: "0 < ?nw" using assms(3) len by (cases "?nw") auto
  have idx: "ws ! k = limites h w c (int (k div ?nw)) (int (k mod ?nw))" if "k < length ws" for k
  proof -
    have "k div ?nw < ?nh" using that len nw by (simp add: less_mult_imp_div_less)
    moreover have "k mod ?nw < ?nw" using nw by simp
    ultimately show ?thesis
      using particion_nth [OF assms(1,2), of "k div ?nw" "k mod ?nw"] by simp
  qed
  have ne: "a div ?nw \<noteq> b div ?nw \<or> a mod ?nw \<noteq> b mod ?nw"
    using assms(5) by (metis div_mult_mod_eq)
  show ?thesis
  proof (rule ccontr)
    assume "pixeles (ws ! a) \<inter> pixeles (ws ! b) \<noteq> {}"
    then obtain r q where "(r, q) \<in> pixeles (ws ! a)" "(r, q) \<in> pixeles (ws ! b)"
      by auto
    then have "int (a div ?nw) = int (b div ?nw)" "int (a mod ?nw) = int (b mod ?nw)"
      using idx [OF assms(3)] idx [OF assms(4)] pixeles_limites [OF assms(1)] by auto
    then show False using ne by simp
  qed
qed

text \<open>
  Claim C1. Whatever the sizes, a non-zero chunk size gives a list of windows and no
  error, and no window of the list is of zero extent: the guard passes over those. For a
  positive height, width and chunk size the list has
  \<open>ceil(height/chunk_size) * ceil(width/chunk_size)\<close> windows; the window of chunk row
  \<open>i\<close> and chunk column \<open>j\<close> stands at index \<open>i * ceil(width/chunk_size) + j\<close>
  (row-major order) and is cut at the raster's edge by \<open>min\<close>; two windows at
  different indices share no pixel; and the windows together hold exactly the pixels of
  \<open>[0,height) \<times> [0,width)\<close>. The list is a function of the three inputs.
\<close>

theorem particion_cubre_sin_solape:
  "(chunk_size \<noteq> 0 \<longrightarrow>
      (\<exists>ws. particion height width chunk_size = Inr ws \<and> (\<forall>v\<in>set ws. \<not> ventana_vacia v)))
   \<and> (0 < height \<and> 0 < width \<and> 0 < chunk_size \<longrightarrow>
      (\<exists>ws. particion height width chunk_size = Inr ws
        \<and> length ws = nat \<lceil>real_of_int height / real_of_int chunk_size\<rceil>
                      * nat \<lceil>real_of_int width / real_of_int chunk_size\<rceil>
        \<and> (\<forall>i < nat \<lceil>real_of_int height / real_of_int chunk_size\<rceil>.
             \<forall>j < nat \<lceil>real_of_int width / real_of_int chunk_size\<rceil>.
               ws ! (i * nat \<lceil>real_of_int width / real_of_int chunk_size\<rceil> + j) =
                 (int i * chunk_size, min ((int i + 1) * chunk_size) height,
                  int j * chunk_size, min ((int j + 1) * chunk_size) width))
        \<and> (\<forall>a < length ws. \<forall>b < length ws. a \<noteq> b \<longrightarrow>
               pixeles (ws ! a) \<inter> pixeles (ws ! b) = {})
        \<and> \<Union> (pixeles ` set ws) = {0..<height} \<times> {0..<width}))"
proof (intro conjI impI)
  assume "chunk_size \<noteq> 0"
  then show "\<exists>ws. particion height width chunk_size = Inr ws \<and> (\<forall>v\<in>set ws. \<not> ventana_vacia v)"
    by (auto simp: particion_def fila_ventanas_def)
next
  assume pos: "0 < height \<and> 0 < width \<and> 0 < chunk_size"
  then have c: "0 < chunk_size" by simp
  obtain ws where ws: "particion height width chunk_size = Inr ws"
    using c by (auto simp: particion_def)
  have nh: "\<lceil>real_of_int height / real_of_int chunk_size\<rceil> = n_chunks height chunk_size"
    and nw: "\<lceil>real_of_int width / real_of_int chunk_size\<rceil> = n_chunks width chunk_size"
    using n_chunks_ceiling [OF c] by simp_all
  have 1: "length ws = nat (n_chunks height chunk_size) * nat (n_chunks width chunk_size)"
    by (rule particion_length [OF c ws])
  have 2: "ws ! (i * nat (n_chunks width chunk_size) + j) =
                 (int i * chunk_size, min ((int i + 1) * chunk_size) height,
                  int j * chunk_size, min ((int j + 1) * chunk_size) width)"
    if "i < nat (n_chunks height chunk_size)" "j < nat (n_chunks width chunk_size)" for i j
    using particion_nth [OF c ws that] by (simp add: limites_def)
  have 3: "pixeles (ws ! a) \<inter> pixeles (ws ! b) = {}"
    if "a < length ws" "b < length ws" "a \<noteq> b" for a b
    using particion_disjoint [OF c ws that] .
  have 4: "\<Union> (pixeles ` set ws) = {0..<height} \<times> {0..<width}"
  proof (rule set_eqI)
    fix p :: "int \<times> int"
    obtain r q where p: "p = (r, q)" by (cases p)
    show "p \<in> \<Union> (pixeles ` set ws) \<longleftrightarrow> p \<in> {0..<height} \<times> {0..<width}"
      unfolding p using particion_pixeles [OF c ws, of r q] by simp
  qed
  show "\<exists>ws. particion height width chunk_size = Inr ws
        \<and> length ws = nat \<lceil>real_of_int height / real_of_int chunk_size\<rceil>
                      * nat \<lceil>real_of_int width / real_of_int chunk_size\<rceil>
        \<and> (\<forall>i < nat \<lceil>real_of_int height / real_of_int chunk_size\<rceil>.
             \<forall>j < nat \<lceil>real_of_int width / real_of_int chunk_size\<rceil>.
               ws ! (i * nat \<lceil>real_of_int width / real_of_int chunk_size\<rceil> + j) =
                 (int i * chunk_size, min ((int i + 1) * chunk_size) height,
                  int j * chunk_size, min ((int j + 1) * chunk_size) width))
        \<and> (\<forall>a < length ws. \<forall>b < length ws. a \<noteq> b \<longrightarrow>
               pixeles (ws ! a) \<inter> pixeles (ws ! b) = {})
        \<and> \<Union> (pixeles ` set ws) = {0..<height} \<times> {0..<width}"
    unfolding nh nw using ws 1 2 3 4 by blast
qed

theorem particion_cubre_sin_solape_witness:
  "particion 5 3 2 = Inr [(0,2,0,2),(0,2,2,3),(2,4,0,2),(2,4,2,3),(4,5,0,2),(4,5,2,3)]
   \<and> length [(0,2,0,2),(0,2,2,3),(2,4,0,2),(2,4,2,3),(4,5,0,2),(4,5,2,3) :: ventana] = 3 * 2
   \<and> \<Union> (pixeles ` set [(0,2,0,2),(0,2,2,3),(2,4,0,2),(2,4,2,3),(4,5,0,2),(4,5,2,3)])
       = {0..<5} \<times> {0..<3}
   \<and> pixeles (0,2,2,3) \<inter> pixeles (4,5,2,3) = {}
   \<and> particion 1 1 (- 2) = Inr []"
proof -
  have e: "particion 5 3 2 = Inr [(0,2,0,2),(0,2,2,3),(2,4,0,2),(2,4,2,3),(4,5,0,2),(4,5,2,3)]"
    by code_simp
  have z: "particion 1 1 (- 2) = Inr []"
    by code_simp
  from particion_cubre_sin_solape [of 2 5 3]
  obtain ws where ws: "particion 5 3 2 = Inr ws"
    and u: "\<Union> (pixeles ` set ws) = {0..<5} \<times> {0..<3}"
    and d: "\<forall>a < length ws. \<forall>b < length ws. a \<noteq> b \<longrightarrow>
               pixeles (ws ! a) \<inter> pixeles (ws ! b) = {}"
    by auto
  have w: "ws = [(0,2,0,2),(0,2,2,3),(2,4,0,2),(2,4,2,3),(4,5,0,2),(4,5,2,3)]"
    using ws e by simp
  have "pixeles (ws ! 1) \<inter> pixeles (ws ! 5) = {}"
    using d [rule_format, of 1 5] w by simp
  then have dd: "pixeles (0,2,2,3) \<inter> pixeles (4,5,2,3) = {}"
    unfolding w by simp
  show ?thesis using e z u dd unfolding w by simp
qed

section \<open>Properties of the zonal accumulator\<close>

lemma misma_forma_length:
  "misma_forma a b \<Longrightarrow> length (concat a) = length (concat b)"
  by (simp add: misma_forma_def length_concat)

lemma seleccion_zip:
  "length cs = length xs \<Longrightarrow>
     seleccion xs (map g (zip cs xs)) = map snd (filter g (zip cs xs))"
  unfolding seleccion_def by (induction cs xs rule: list_induct2) auto

lemma True_in_map_iff: "True \<in> set (map g ps) \<longleftrightarrow> filter g ps \<noteq> []"
  by (induction ps) auto

lemma muestras_no_nan: "x \<in> set (muestras a b nodata k) \<Longrightarrow> \<not> isnan x"
  by (auto simp: muestras_def ndvi_valid_def)

lemma filter_muestras:
  "filter (\<lambda>x. \<not> isnan x) (muestras a b nodata k) = muestras a b nodata k"
  by (rule filter_True) (auto dest: muestras_no_nan)

lemma acumular_categoria_eq:
  assumes "misma_forma a b"
  shows "acumular_categoria a b nodata res k =
     Inr (if muestras a b nodata k = [] then res else dict_extend res k (muestras a b nodata k))"
proof -
  have s: "seleccion (concat b) (mascara a b nodata k) = muestras a b nodata k"
    unfolding mascara_def muestras_def
    by (rule seleccion_zip) (rule misma_forma_length [OF assms])
  have t: "True \<in> set (mascara a b nodata k) \<longleftrightarrow> muestras a b nodata k \<noteq> []"
    unfolding mascara_def muestras_def by (simp only: True_in_map_iff map_is_Nil_conv)
  show ?thesis
    using assms by (simp add: acumular_categoria_def Let_def s t filter_muestras)
qed

lemma acumular_mala_forma:
  assumes "\<not> misma_forma a b"
  shows "fst (acumular a b nodata excl cats res) = res"
  using assms by (induction cats) (simp_all add: acumular_categoria_def)

lemma sano_extend:
  "sano P res \<Longrightarrow> vs \<noteq> [] \<Longrightarrow> (\<forall>x\<in>set vs. P x) \<Longrightarrow> sano P (dict_extend res k vs)"
  unfolding sano_def dict_extend_def
  by (auto split: option.splits if_splits) (metis option.sel)+

lemma dom_extend: "dom (dict_extend res k vs) = insert k (dom res)"
  by (simp add: dict_extend_def)

lemma acumular_buena_forma:
  assumes "misma_forma a b"
  shows "dom (fst (acumular a b nodata excl cats res)) =
        dom res \<union> {k \<in> set cats - set excl. muestras a b nodata k \<noteq> []}
    \<and> (sano P res \<and> (\<forall>k\<in>set cats - set excl. \<forall>x\<in>set (muestras a b nodata k). P x)
         \<longrightarrow> sano P (fst (acumular a b nodata excl cats res)))"
proof (induction cats arbitrary: res)
  case Nil
  show ?case by simp
next
  case (Cons k cats)
  show ?case
  proof (cases "k \<in> set excl")
    case True
    then show ?thesis using Cons [of res] by auto
  next
    case False
    let ?res' = "if muestras a b nodata k = [] then res else dict_extend res k (muestras a b nodata k)"
    have step: "acumular a b nodata excl (k # cats) res = acumular a b nodata excl cats ?res'"
      using False by (simp add: acumular_categoria_eq [OF assms])
    have d: "dom ?res' = dom res \<union> (if muestras a b nodata k = [] then {} else {k})"
      by (simp add: dom_extend)
    have s: "sano P res \<and> (\<forall>x\<in>set (muestras a b nodata k). P x) \<longrightarrow> sano P ?res'"
      by (auto intro!: sano_extend)
    show ?thesis
      unfolding step using Cons [of ?res'] False d s by auto
  qed
qed

lemma procesar_ventana_inv:
  "dom (procesar_ventana env si sn cats excl res v) =
        dom res \<union> {k \<in> set cats - set excl. muestras_ventana env si sn k v \<noteq> []}
    \<and> (sano P res \<and> (\<forall>k\<in>set cats - set excl. \<forall>x\<in>set (muestras_ventana env si sn k v). P x)
         \<longrightarrow> sano P (procesar_ventana env si sn cats excl res v))"
proof (cases "alinear_ventana env si sn v")
  case None
  then show ?thesis by (simp add: procesar_ventana_def muestras_ventana_def)
next
  case (Some ab)
  obtain a b where ab: "ab = (a, b)" by (cases ab)
  show ?thesis
  proof (cases "misma_forma a b")
    case True
    then show ?thesis
      using acumular_buena_forma [OF True, of "r_nodata sn" excl cats res P] Some ab
      by (simp add: procesar_ventana_def muestras_ventana_def)
  next
    case False
    then show ?thesis
      using acumular_mala_forma [OF False] Some ab
      by (simp add: procesar_ventana_def muestras_ventana_def)
  qed
qed

lemma foldl_procesar_inv:
  "dom (foldl (procesar_ventana env si sn cats excl) res vs) =
        dom res \<union> {k \<in> set cats - set excl. \<exists>v\<in>set vs. muestras_ventana env si sn k v \<noteq> []}
    \<and> (sano P res \<and> (\<forall>v\<in>set vs. \<forall>k\<in>set cats - set excl.
                        \<forall>x\<in>set (muestras_ventana env si sn k v). P x)
         \<longrightarrow> sano P (foldl (procesar_ventana env si sn cats excl) res vs))"
proof (induction vs arbitrary: res)
  case Nil
  show ?case by simp
next
  case (Cons v vs)
  let ?res' = "procesar_ventana env si sn cats excl res v"
  have 1: "dom ?res' = dom res \<union> {k \<in> set cats - set excl. muestras_ventana env si sn k v \<noteq> []}"
    and 2: "sano P res \<and> (\<forall>k\<in>set cats - set excl. \<forall>x\<in>set (muestras_ventana env si sn k v). P x)
         \<longrightarrow> sano P ?res'"
    using procesar_ventana_inv [of env si sn cats excl res v P] by blast+
  have 3: "dom (foldl (procesar_ventana env si sn cats excl) ?res' vs) =
        dom ?res' \<union> {k \<in> set cats - set excl. \<exists>v\<in>set vs. muestras_ventana env si sn k v \<noteq> []}"
    and 4: "sano P ?res' \<and> (\<forall>v\<in>set vs. \<forall>k\<in>set cats - set excl.
                        \<forall>x\<in>set (muestras_ventana env si sn k v). P x)
         \<longrightarrow> sano P (foldl (procesar_ventana env si sn cats excl) ?res' vs)"
    using Cons [of ?res'] by blast+
  show ?case
  proof (intro conjI impI)
    show "dom (foldl (procesar_ventana env si sn cats excl) res (v # vs)) =
        dom res \<union> {k \<in> set cats - set excl. \<exists>v\<in>set (v # vs). muestras_ventana env si sn k v \<noteq> []}"
      using 1 3 by auto
  next
    assume "sano P res \<and> (\<forall>v\<in>set (v # vs). \<forall>k\<in>set cats - set excl.
                        \<forall>x\<in>set (muestras_ventana env si sn k v). P x)"
    then show "sano P (foldl (procesar_ventana env si sn cats excl) res (v # vs))"
      using 2 4 by simp
  qed
qed

lemma muestras_ventana_no_nan:
  "x \<in> set (muestras_ventana env si sn k v) \<Longrightarrow> \<not> isnan x"
  by (auto simp: muestras_ventana_def split: option.splits if_splits dest: muestras_no_nan)

lemma sano_vacio: "sano P (\<lambda>k. None)"
  by (simp add: sano_def)

lemma foldl_fadd_finito:
  "\<forall>x\<in>set xs. es_finito x \<Longrightarrow> es_finito (foldl fadd (Fin a) xs)"
proof (induction xs arbitrary: a)
  case Nil
  show ?case by simp
next
  case (Cons x xs)
  then obtain b where "x = Fin b" by (cases x) auto
  then show ?case using Cons by simp
qed

lemma np_mean_finito:
  assumes "xs \<noteq> []" "\<forall>x\<in>set xs. es_finito x"
  shows "es_finito (np_mean xs)"
proof -
  obtain s where "np_sum xs = Fin s"
    using foldl_fadd_finito [OF assms(2), of 0] by (cases "np_sum xs") (auto simp: np_sum_def)
  then show ?thesis using assms(1) by (simp add: np_mean_def)
qed

lemma procesar_resultado:
  assumes "particion (r_height si) (r_width si) c = Inr ws"
  shows "procesar_ndvi_por_categoria env si sn cats excl c =
           Inr (promedios_de (foldl (procesar_ventana env si sn cats excl) (\<lambda>k. None) ws))"
  using assms by (simp add: procesar_ndvi_por_categoria_def bind_e_def)

lemma dom_promedios_de: "dom (promedios_de res) = dom res"
  by (auto simp: promedios_de_def split: option.splits)

text \<open>
  Claim C6. A category code that matches no valid NDVI pixel in any window of the raster
  pair is recorded as NaN for that month, not as zero: the function returns normally (for a
  non-zero chunk size), the mapping it returns has no entry for the code, and the caller's
  \<open>promedios.get(cat, np.nan)\<close> supplies NaN. The scripts' witness is scenario A of the
  specification with a fifth code, 4, that occurs nowhere.
\<close>

theorem sin_cobertura_es_nan:
  assumes "\<forall>ws. particion (r_height src_inta) (r_width src_inta) chunk_size = Inr ws \<longrightarrow>
             (\<forall>v\<in>set ws. muestras_ventana env src_inta src_ndvi cat v = [])"
  shows "valor_del_mes env src_inta src_ndvi categorias exclude_values chunk_size cat = NaN
     \<and> (chunk_size \<noteq> 0 \<longrightarrow>
          (\<exists>promedios. procesar_ndvi_por_categoria env src_inta src_ndvi categorias
                          exclude_values chunk_size = Inr promedios
                      \<and> promedios cat = None \<and> dict_get promedios cat NaN = NaN))"
proof (cases "chunk_size = 0")
  case True
  then show ?thesis
    by (simp add: valor_del_mes_def procesar_ndvi_por_categoria_def bind_e_def particion_def)
next
  case False
  then obtain ws where ws: "particion (r_height src_inta) (r_width src_inta) chunk_size = Inr ws"
    by (auto simp: particion_def)
  let ?res = "foldl (procesar_ventana env src_inta src_ndvi categorias exclude_values)
                (\<lambda>k. None) ws"
  have "cat \<notin> dom ?res"
    using foldl_procesar_inv [of env src_inta src_ndvi categorias exclude_values "\<lambda>k. None" ws]
      assms ws by auto
  then have n: "promedios_de ?res cat = None"
    using dom_promedios_de [of ?res] by blast
  show ?thesis
    using procesar_resultado [OF ws, of env src_ndvi categorias exclude_values] n
    by (simp add: valor_del_mes_def dict_get_def)
qed

lemma como_dict_extend:
  "(if vs = [] then como_dict A else dict_extend (como_dict A) k vs)
     = como_dict (\<lambda>j. A j @ (if j = k then vs else []))"
  by (rule ext) (auto simp: como_dict_def dict_extend_def)

lemma acumular_exacto:
  assumes "misma_forma a b"
  shows "fst (acumular a b nodata excl cats (como_dict A)) =
     como_dict (\<lambda>j. A j @ concat (map (\<lambda>c. if c = j \<and> c \<notin> set excl
                                             then muestras a b nodata j else []) cats))"
proof (induction cats arbitrary: A)
  case Nil
  show ?case by simp
next
  case (Cons c cats)
  show ?case
  proof (cases "c \<in> set excl")
    case True
    then show ?thesis using Cons [of A] by simp
  next
    case False
    let ?A' = "\<lambda>j. A j @ (if j = c then muestras a b nodata c else [])"
    have "acumular a b nodata excl (c # cats) (como_dict A)
            = acumular a b nodata excl cats (como_dict ?A')"
      using False
      by (simp add: acumular_categoria_eq [OF assms] como_dict_extend [symmetric])
    moreover have "(\<lambda>j. ?A' j @ concat (map (\<lambda>c. if c = j \<and> c \<notin> set excl
                                             then muestras a b nodata j else []) cats))
        = (\<lambda>j. A j @ concat (map (\<lambda>c. if c = j \<and> c \<notin> set excl
                                             then muestras a b nodata j else []) (c # cats)))"
      using False by (intro ext) auto
    ultimately show ?thesis using Cons [of ?A'] by simp
  qed
qed

lemma concat_map_vacio: "concat (map (\<lambda>c. []) cats) = []"
  by (induction cats) simp_all

lemma procesar_ventana_exacto:
  "procesar_ventana env si sn cats excl (como_dict A) v =
     como_dict (\<lambda>j. A j @ aportes env si sn cats excl v j)"
proof (cases "alinear_ventana env si sn v")
  case None
  have mv: "\<And>j. muestras_ventana env si sn j v = []"
    using None by (simp add: muestras_ventana_def)
  show ?thesis
    using None by (simp add: procesar_ventana_def aportes_def mv concat_map_vacio cong: if_cong)
next
  case (Some ab)
  obtain a b where ab: "ab = (a, b)" by (cases ab)
  show ?thesis
  proof (cases "misma_forma a b")
    case True
    have mv: "\<And>j. muestras_ventana env si sn j v = muestras a b (r_nodata sn) j"
      using Some ab True by (simp add: muestras_ventana_def)
    show ?thesis
      using acumular_exacto [OF True, of "r_nodata sn" excl cats A] Some ab
      by (simp add: procesar_ventana_def aportes_def mv cong: if_cong)
  next
    case False
    have mv: "\<And>j. muestras_ventana env si sn j v = []"
      using Some ab False by (simp add: muestras_ventana_def)
    show ?thesis
      using acumular_mala_forma [OF False] Some ab
      by (simp add: procesar_ventana_def aportes_def mv concat_map_vacio cong: if_cong)
  qed
qed

lemma foldl_procesar_exacto:
  "foldl (procesar_ventana env si sn cats excl) (como_dict A) vs =
     como_dict (\<lambda>j. A j @ acumuladas env si sn cats excl vs j)"
proof (induction vs arbitrary: A)
  case Nil
  show ?case by (simp add: acumuladas_def)
next
  case (Cons v vs)
  show ?case
    using Cons [of "\<lambda>j. A j @ aportes env si sn cats excl v j"]
    by (simp add: procesar_ventana_exacto acumuladas_def)
qed

lemma como_dict_vacio: "como_dict (\<lambda>j. []) = (\<lambda>k. None)"
  by (simp add: como_dict_def)

lemma acumulador_final:
  "foldl (procesar_ventana env si sn cats excl) (\<lambda>k. None) vs =
     como_dict (acumuladas env si sn cats excl vs)"
  using foldl_procesar_exacto [of env si sn cats excl "\<lambda>j. []" vs]
  by (simp add: como_dict_vacio)

lemma set_aportes:
  "set (aportes env si sn cats excl v k) =
     (if k \<in> set cats \<and> k \<notin> set excl then set (muestras_ventana env si sn k v) else {})"
  by (auto simp: aportes_def)

lemma set_acumuladas:
  "set (acumuladas env si sn cats excl vs k) =
     (if k \<in> set cats \<and> k \<notin> set excl
      then (\<Union>v\<in>set vs. set (muestras_ventana env si sn k v)) else {})"
  by (auto simp: acumuladas_def set_aportes)

lemma acumuladas_vacia_iff:
  "acumuladas env si sn cats excl vs k \<noteq> [] \<longleftrightarrow>
     k \<in> set cats \<and> k \<notin> set excl \<and> (\<exists>v\<in>set vs. muestras_ventana env si sn k v \<noteq> [])"
proof -
  have "acumuladas env si sn cats excl vs k \<noteq> [] \<longleftrightarrow>
          set (acumuladas env si sn cats excl vs k) \<noteq> {}"
    by simp
  also have "\<dots> \<longleftrightarrow> k \<in> set cats \<and> k \<notin> set excl
       \<and> (\<exists>v\<in>set vs. set (muestras_ventana env si sn k v) \<noteq> {})"
    unfolding set_acumuladas by auto
  finally show ?thesis by simp
qed

text \<open>
  Claim C9, as amended. For a non-zero chunk size the function returns a mapping, and the
  accumulator it is computed from holds, for each code, exactly the samples appended for
  it: the valid (not NaN, not nodata) NDVI pixels of the code in each window in turn, once
  for each occurrence of the code in \<open>categorias\<close> when the code is not in
  \<open>exclude_values\<close>. A code with no such sample has no entry, so no entry is an empty
  list and the zero-sample branch of the final loop is never taken. The value of a key is
  the mean of the samples accumulated for it, none of which is NaN; the keys are exactly
  the codes of \<open>categorias\<close> outside \<open>exclude_values\<close> that matched at least one
  valid pixel in at least one window; the caller reads the mapping with NaN as the lookup
  default, which is where the NaN of a code without entry comes from; and when every
  matched sample is finite no value is NaN. Samples that hold infinities of both signs are
  not NaN, yet their mean is.
\<close>

theorem claves_y_promedios:
  assumes "chunk_size \<noteq> 0"
  shows "\<exists>promedios ws.
      procesar_ndvi_por_categoria env src_inta src_ndvi categorias exclude_values chunk_size
        = Inr promedios
    \<and> particion (r_height src_inta) (r_width src_inta) chunk_size = Inr ws
    \<and> foldl (procesar_ventana env src_inta src_ndvi categorias exclude_values) (\<lambda>k. None) ws
        = como_dict (acumuladas env src_inta src_ndvi categorias exclude_values ws)
    \<and> (\<forall>k. foldl (procesar_ventana env src_inta src_ndvi categorias exclude_values)
              (\<lambda>k. None) ws k \<noteq> Some [])
    \<and> (\<forall>k. promedios k =
          (if acumuladas env src_inta src_ndvi categorias exclude_values ws k = [] then None
           else Some (np_mean (acumuladas env src_inta src_ndvi categorias exclude_values ws k))))
    \<and> (\<forall>k. set (acumuladas env src_inta src_ndvi categorias exclude_values ws k) =
          (if k \<in> set categorias - set exclude_values
           then (\<Union>v\<in>set ws. set (muestras_ventana env src_inta src_ndvi k v)) else {}))
    \<and> (\<forall>k. \<forall>x\<in>set (acumuladas env src_inta src_ndvi categorias exclude_values ws k).
          \<not> isnan x)
    \<and> dom promedios = {k \<in> set categorias - set exclude_values.
                         \<exists>v\<in>set ws. muestras_ventana env src_inta src_ndvi k v \<noteq> []}
    \<and> (\<forall>k. valor_del_mes env src_inta src_ndvi categorias exclude_values chunk_size k =
          dict_get promedios k NaN)
    \<and> (\<forall>k. promedios k = None \<longrightarrow>
          valor_del_mes env src_inta src_ndvi categorias exclude_values chunk_size k = NaN)
    \<and> ((\<forall>v\<in>set ws. \<forall>k\<in>set categorias - set exclude_values.
           \<forall>x\<in>set (muestras_ventana env src_inta src_ndvi k v). es_finito x)
        \<longrightarrow> (\<forall>k. promedios k \<noteq> Some NaN))"
proof -
  obtain ws where ws: "particion (r_height src_inta) (r_width src_inta) chunk_size = Inr ws"
    using assms by (auto simp: particion_def)
  let ?acc = "acumuladas env src_inta src_ndvi categorias exclude_values ws"
  let ?res = "foldl (procesar_ventana env src_inta src_ndvi categorias exclude_values)
                (\<lambda>k. None) ws"
  let ?p = "promedios_de ?res"
  have 1: "procesar_ndvi_por_categoria env src_inta src_ndvi categorias exclude_values chunk_size
        = Inr ?p"
    by (rule procesar_resultado [OF ws])
  have 2: "?res = como_dict ?acc"
    by (rule acumulador_final)
  have 3: "\<forall>k. ?res k \<noteq> Some []"
    unfolding 2 by (simp add: como_dict_def)
  have 4: "\<forall>k. ?p k = (if ?acc k = [] then None else Some (np_mean (?acc k)))"
    unfolding 2 by (simp add: promedios_de_def como_dict_def)
  have 5: "\<forall>k. set (?acc k) =
          (if k \<in> set categorias - set exclude_values
           then (\<Union>v\<in>set ws. set (muestras_ventana env src_inta src_ndvi k v)) else {})"
    by (simp add: set_acumuladas)
  have 6: "\<forall>k. \<forall>x\<in>set (?acc k). \<not> isnan x"
    unfolding set_acumuladas by (auto dest: muestras_ventana_no_nan)
  have 7: "dom ?p = {k \<in> set categorias - set exclude_values.
                         \<exists>v\<in>set ws. muestras_ventana env src_inta src_ndvi k v \<noteq> []}"
    using 4 acumuladas_vacia_iff [of env src_inta src_ndvi categorias exclude_values ws]
    by (auto simp: dom_def)
  have 8: "\<forall>k. valor_del_mes env src_inta src_ndvi categorias exclude_values chunk_size k =
          dict_get ?p k NaN"
    by (simp add: valor_del_mes_def 1)
  have 9: "\<forall>k. ?p k = None \<longrightarrow>
          valor_del_mes env src_inta src_ndvi categorias exclude_values chunk_size k = NaN"
    using 8 by (simp add: dict_get_def)
  have 10: "\<forall>k. ?p k \<noteq> Some NaN"
    if fin: "\<forall>v\<in>set ws. \<forall>k\<in>set categorias - set exclude_values.
           \<forall>x\<in>set (muestras_ventana env src_inta src_ndvi k v). es_finito x"
  proof (intro allI notI)
    fix k assume k: "?p k = Some NaN"
    then have ne: "?acc k \<noteq> []" and m: "np_mean (?acc k) = NaN"
      using 4 by (auto split: if_splits)
    have "\<forall>x\<in>set (?acc k). es_finito x"
      unfolding set_acumuladas using fin by auto
    then have "es_finito (np_mean (?acc k))"
      using ne np_mean_finito by blast
    then show False using m by simp
  qed
  show ?thesis
    apply (rule exI [of _ ?p])
    apply (rule exI [of _ ws])
    using 1 ws 2 3 4 5 6 7 8 9 10 by blast
qed

lemma particion_A: "particion 4 4 2 = Inr [(0, 2, 0, 2), (0, 2, 2, 4), (2, 4, 0, 2), (2, 4, 2, 4)]"
  by code_simp

lemma dims_A: "r_height inta_A = 4" "r_width inta_A = 4"
  by (simp_all add: inta_A_def raster_de_def)

theorem sin_cobertura_es_nan_witness:
  "valor_del_mes entorno_rasterio inta_A ndvi_A [0, 1, 2, 3, 4] [0] 2 4 = NaN
   \<and> valor_del_mes entorno_rasterio inta_A ndvi_A [0, 1, 2, 3, 4] [0] 2 1 = Fin (1 / 2)
   \<and> valor_del_mes entorno_rasterio inta_A ndvi_A [0, 1, 2, 3, 4] [0] 2 2 = Fin (1 / 2)
   \<and> valor_del_mes entorno_rasterio inta_A ndvi_A [0, 1, 2, 3, 4] [0] 2 3 = Fin (1 / 2)"
proof -
  have m: "list_all (\<lambda>v. muestras_ventana entorno_rasterio inta_A ndvi_A 4 v = [])
             [(0, 2, 0, 2), (0, 2, 2, 4), (2, 4, 0, 2), (2, 4, 2, 4)]"
    by code_simp
  have h: "\<forall>ws. particion (r_height inta_A) (r_width inta_A) 2 = Inr ws \<longrightarrow>
             (\<forall>v\<in>set ws. muestras_ventana entorno_rasterio inta_A ndvi_A 4 v = [])"
    using m by (auto simp: dims_A particion_A)
  have 4: "valor_del_mes entorno_rasterio inta_A ndvi_A [0, 1, 2, 3, 4] [0] 2 4 = NaN"
    using sin_cobertura_es_nan [OF h, of "[0, 1, 2, 3, 4]" "[0]"] by simp
  have 1: "valor_del_mes entorno_rasterio inta_A ndvi_A [0, 1, 2, 3, 4] [0] 2 1 = Fin (1 / 2)"
    by code_simp
  have 2: "valor_del_mes entorno_rasterio inta_A ndvi_A [0, 1, 2, 3, 4] [0] 2 2 = Fin (1 / 2)"
    by code_simp
  have 3: "valor_del_mes entorno_rasterio inta_A ndvi_A [0, 1, 2, 3, 4] [0] 2 3 = Fin (1 / 2)"
    by code_simp
  show ?thesis using 1 2 3 4 by simp
qed

theorem claves_y_promedios_counterexample:
  "(case procesar_ndvi_por_categoria entorno_rasterio inta_B ndvi_B [1] [] 2 of
      Inr promedios \<Rightarrow> promedios 1
    | Inl e \<Rightarrow> None) = Some NaN
   \<and> muestras_ventana entorno_rasterio inta_B ndvi_B 1 (0, 1, 0, 2) = [PInf, MInf]"
  by code_simp

theorem claves_y_promedios_witness:
  "(1::int) \<noteq> 0 \<and>
   (case procesar_ndvi_por_categoria entorno_rasterio inta_C ndvi_C [1, 2, 3] [] 1 of
      Inr promedios \<Rightarrow>
        promedios 1 = Some (Fin (3 / 10)) \<and> promedios 2 = Some (Fin (9 / 10))
        \<and> promedios 3 = None \<and> dom promedios = {1, 2}
    | Inl e \<Rightarrow> False)
   \<and> map (acumuladas entorno_rasterio inta_C ndvi_C [1, 2, 3] []
            [(0, 1, 0, 1), (0, 1, 1, 2), (1, 2, 0, 1), (1, 2, 1, 2)]) [1, 2, 3]
       = [[Fin (1 / 5), Fin (2 / 5)], [Fin (9 / 10)], []]
   \<and> map (valor_del_mes entorno_rasterio inta_C ndvi_C [1, 2, 3] [] 1) [1, 2, 3]
       = [Fin (3 / 10), Fin (9 / 10), NaN]
   \<and> (case procesar_ndvi_por_categoria entorno_rasterio inta_A ndvi_A [0, 1, 2, 3, 4] [0] 2 of
      Inr promedios \<Rightarrow>
        promedios 0 = None \<and> promedios 1 = Some (Fin (1 / 2)) \<and> promedios 2 = Some (Fin (1 / 2))
        \<and> promedios 3 = Some (Fin (1 / 2)) \<and> promedios 4 = None
    | Inl e \<Rightarrow> False)"
proof -
  have c: "(1::int) \<noteq> 0" by simp
  have pc: "particion (r_height inta_C) (r_width inta_C) 1
              = Inr [(0, 1, 0, 1), (0, 1, 1, 2), (1, 2, 0, 1), (1, 2, 1, 2)]"
    by code_simp
  have ac: "map (acumuladas entorno_rasterio inta_C ndvi_C [1, 2, 3] []
            [(0, 1, 0, 1), (0, 1, 1, 2), (1, 2, 0, 1), (1, 2, 1, 2)]) [1, 2, 3]
       = [[Fin (1 / 5), Fin (2 / 5)], [Fin (9 / 10)], []]"
    by code_simp
  have m: "np_mean [Fin (1 / 5), Fin (2 / 5)] = Fin (3 / 10)" "np_mean [Fin (9 / 10)] = Fin (9 / 10)"
    by code_simp+
  from claves_y_promedios [OF c, of entorno_rasterio inta_C ndvi_C "[1, 2, 3]" "[]"]
  obtain promedios ws where
    p: "procesar_ndvi_por_categoria entorno_rasterio inta_C ndvi_C [1, 2, 3] [] 1
          = Inr promedios"
    and w: "particion (r_height inta_C) (r_width inta_C) 1 = Inr ws"
    and v: "\<forall>k. promedios k =
          (if acumuladas entorno_rasterio inta_C ndvi_C [1, 2, 3] [] ws k = [] then None
           else Some (np_mean (acumuladas entorno_rasterio inta_C ndvi_C [1, 2, 3] [] ws k)))"
    and s: "\<forall>k. set (acumuladas entorno_rasterio inta_C ndvi_C [1, 2, 3] [] ws k) =
          (if k \<in> set [1, 2, 3] - set []
           then (\<Union>v\<in>set ws. set (muestras_ventana entorno_rasterio inta_C ndvi_C k v)) else {})"
    and g: "\<forall>k. valor_del_mes entorno_rasterio inta_C ndvi_C [1, 2, 3] [] 1 k =
          dict_get promedios k NaN"
    by blast
  have ws: "ws = [(0, 1, 0, 1), (0, 1, 1, 2), (1, 2, 0, 1), (1, 2, 1, 2)]"
    using w pc by simp
  have v1: "promedios 1 = Some (Fin (3 / 10))" "promedios 2 = Some (Fin (9 / 10))"
    "promedios 3 = None"
    using v ac m unfolding ws by simp_all
  have d: "dom promedios = {1, 2}"
  proof -
    have "promedios k = None" if "k \<noteq> 1" "k \<noteq> 2" for k
    proof -
      have "set (acumuladas entorno_rasterio inta_C ndvi_C [1, 2, 3] [] ws k) = {}"
        using that s ac unfolding ws by (auto split: if_splits)
      then show ?thesis using v by simp
    qed
    then have "promedios k \<noteq> None \<longleftrightarrow> k = 1 \<or> k = 2" for k
      using v1 by (cases "k = 1"; cases "k = 2") simp_all
    then show ?thesis unfolding dom_def by blast
  qed
  have gv: "map (valor_del_mes entorno_rasterio inta_C ndvi_C [1, 2, 3] [] 1) [1, 2, 3]
       = [Fin (3 / 10), Fin (9 / 10), NaN]"
    using g v1 by (simp add: dict_get_def)
  have e: "(case procesar_ndvi_por_categoria entorno_rasterio inta_A ndvi_A [0, 1, 2, 3, 4] [0] 2 of
      Inr promedios \<Rightarrow>
        promedios 0 = None \<and> promedios 1 = Some (Fin (1 / 2)) \<and> promedios 2 = Some (Fin (1 / 2))
        \<and> promedios 3 = Some (Fin (1 / 2)) \<and> promedios 4 = None
    | Inl e \<Rightarrow> False)"
    by code_simp
  show ?thesis using c p v1 d ac gv e by simp
qed

section \<open>Properties of the resampler\<close>

lemma length_bloque: "length (bloque f c g) = f"
  by (simp add: bloque_def)

lemma nth_bloque: "i < f \<Longrightarrow> bloque f c g ! i = map (g i) [0..<c]"
  by (simp add: bloque_def)

lemma nth_nth_bloque: "i < f \<Longrightarrow> j < c \<Longrightarrow> bloque f c g ! i ! j = g i j"
  by (simp add: bloque_def)

lemma reproject_bloque:
  "reproject env source (bloque f c g) st sc dt dc r =
     bloque f c (\<lambda>i j. case remuestrear env r source (coordenadas env st sc dt dc i j) of
                        Some v \<Rightarrow> v | None \<Rightarrow> Fin 0)"
  unfolding reproject_def length_bloque
  by (simp add: bloque_def)

lemma remuestrear_memoria:
  "remuestrear (env\<lparr>memoria := m\<rparr>) r source q = remuestrear env r source q"
  by (simp add: remuestrear_def split: option.splits resampling.splits)

text \<open>
  Claim C2, as amended. The destination block is allocated with \<open>np.empty\<close>: before the
  reprojection call it holds whatever the memory held. The call itself initialises the
  destination, so its result is the one a zero-filled block would give, whatever the
  memory held, and every destination pixel that the source does not cover holds 0.
\<close>

theorem reproject_inicializa_destino:
  "reproject (env\<lparr>memoria := m\<rparr>) source (np_empty (env\<lparr>memoria := m\<rparr>) filas columnas)
       st sc dt dc r
     = reproject env source (np_zeros filas columnas) st sc dt dc r
   \<and> (\<forall>i < nat filas. \<forall>j < nat columnas.
        remuestrear env r source (coordenadas env st sc dt dc i j) = None \<longrightarrow>
        reproject env source (np_empty env filas columnas) st sc dt dc r ! i ! j = Fin 0)
   \<and> reproyectar_chunk (env\<lparr>memoria := m\<rparr>) raw sw srct srcc bnd dstc filas columnas r
     = reproyectar_chunk env raw sw srct srcc bnd dstc filas columnas r"
proof (intro conjI allI impI)
  show 1: "reproject (env\<lparr>memoria := m\<rparr>) source (np_empty (env\<lparr>memoria := m\<rparr>) filas columnas)
       st sc dt dc r
     = reproject env source (np_zeros filas columnas) st sc dt dc r" for st sc dt dc source
    by (simp add: np_empty_def np_zeros_def reproject_bloque remuestrear_memoria)
  show "reproject env source (np_empty env filas columnas) st sc dt dc r ! i ! j = Fin 0"
    if "i < nat filas" "j < nat columnas"
      "remuestrear env r source (coordenadas env st sc dt dc i j) = None" for i j
    using that by (simp add: np_empty_def reproject_bloque nth_nth_bloque)
  have 2: "reproject env source (np_empty env filas columnas) st sc dt dc r
     = reproject env source (np_zeros filas columnas) st sc dt dc r" for st sc dt dc source
    by (simp add: np_empty_def np_zeros_def reproject_bloque)
  show "reproyectar_chunk (env\<lparr>memoria := m\<rparr>) raw sw srct srcc bnd dstc filas columnas r
     = reproyectar_chunk env raw sw srct srcc bnd dstc filas columnas r"
    unfolding reproyectar_chunk_def by (simp add: 1 2 split: prod.splits)
qed

lemma remuestrear_nearest:
  assumes "remuestrear env Nearest source q = Some v"
  shows "v \<in> set (concat source)"
proof -
  from assms obtain p where p: "q = Some p" "cubierto source p"
    and v: "v = source ! nat \<lfloor>snd p\<rfloor> ! nat \<lfloor>fst p\<rfloor>"
    by (auto simp: remuestrear_def split: option.splits if_splits)
  have "source ! nat \<lfloor>snd p\<rfloor> \<in> set source"
    using p(2) by (simp add: cubierto_def)
  moreover have "v \<in> set (source ! nat \<lfloor>snd p\<rfloor>)"
    using p(2) v by (simp add: cubierto_def)
  ultimately show ?thesis by auto
qed

lemma reproject_nearest_valores:
  assumes "x \<in> set (concat (reproject env source destination st sc dt dc Nearest))"
  shows "x \<in> set (concat source) \<or> x = Fin 0"
proof -
  from assms obtain i j where
    "x = (case remuestrear env Nearest source (coordenadas env st sc dt dc i j) of
            Some v \<Rightarrow> v | None \<Rightarrow> Fin 0)"
    by (auto simp: reproject_def)
  then show ?thesis
    by (auto split: option.splits dest: remuestrear_nearest)
qed

lemma alinear_mnc_intersect_bool:
  "\<exists>e. alinear_mnc (env\<lparr>intersect := rasterio_intersect\<rparr>) ref_crs src bnd filas columnas = Inl e"
  by (simp add: alinear_mnc_def bind_e_def rasterio_intersect_def split: sum.splits)


theorem reproject_inicializa_destino_witness:
  "(0::nat) < nat 1 \<and> (1::nat) < nat 2
   \<and> remuestrear entorno_rasterio Nearest [[Fin 5]]
        (coordenadas entorno_rasterio (norte_arriba 1 0 1) ''EPSG:32721''
           (norte_arriba 1 0 1) ''EPSG:32721'' 0 1) = None
   \<and> reproject entorno_rasterio [[Fin 5]] (np_empty entorno_rasterio 1 2)
        (norte_arriba 1 0 1) ''EPSG:32721'' (norte_arriba 1 0 1) ''EPSG:32721'' Nearest ! 0 ! 1
       = Fin 0
   \<and> reproject entorno_rasterio [[Fin 5]] (np_empty entorno_rasterio 1 2)
        (norte_arriba 1 0 1) ''EPSG:32721'' (norte_arriba 1 0 1) ''EPSG:32721'' Nearest
       = [[Fin 5, Fin 0]]"
proof -
  have n: "remuestrear entorno_rasterio Nearest [[Fin 5]]
        (coordenadas entorno_rasterio (norte_arriba 1 0 1) ''EPSG:32721''
           (norte_arriba 1 0 1) ''EPSG:32721'' 0 1) = None"
    by code_simp
  have e: "reproject entorno_rasterio [[Fin 5]] (np_empty entorno_rasterio 1 2)
        (norte_arriba 1 0 1) ''EPSG:32721'' (norte_arriba 1 0 1) ''EPSG:32721'' Nearest
       = [[Fin 5, Fin 0]]"
    by code_simp
  have "\<forall>i < nat 1. \<forall>j < nat 2.
        remuestrear entorno_rasterio Nearest [[Fin 5]]
          (coordenadas entorno_rasterio (norte_arriba 1 0 1) ''EPSG:32721''
             (norte_arriba 1 0 1) ''EPSG:32721'' i j) = None \<longrightarrow>
        reproject entorno_rasterio [[Fin 5]] (np_empty entorno_rasterio 1 2)
          (norte_arriba 1 0 1) ''EPSG:32721'' (norte_arriba 1 0 1) ''EPSG:32721'' Nearest
          ! i ! j = Fin 0"
    using reproject_inicializa_destino [where env = entorno_rasterio and source = "[[Fin 5]]"
        and filas = 1 and columnas = 2 and st = "norte_arriba 1 0 1" and sc = "''EPSG:32721''"
        and dt = "norte_arriba 1 0 1" and dc = "''EPSG:32721''" and r = Nearest]
    by blast
  then have "reproject entorno_rasterio [[Fin 5]] (np_empty entorno_rasterio 1 2)
        (norte_arriba 1 0 1) ''EPSG:32721'' (norte_arriba 1 0 1) ''EPSG:32721'' Nearest ! 0 ! 1
       = Fin 0"
    using n by simp
  then show ?thesis using n e by simp
qed

theorem reproject_inicializa_destino_counterexample:
  "np_empty entorno_rasterio 1 2 = [[Fin 7, Fin 7]]
   \<and> np_zeros 1 2 = [[Fin 0, Fin 0]]
   \<and> np_empty entorno_rasterio 1 2 \<noteq> np_zeros 1 2"
  by code_simp

text \<open>
  Claim C3, at a failing input. With \<open>rasterio.windows.intersect\<close> as the library
  documents it (a test that returns a \<open>bool\<close>), the source raster lying wholly outside
  the reference window makes line 171 of script 6 read \<open>.width\<close> of \<open>False\<close>: the
  alignment raises \<open>AttributeError\<close>, the handler of line 267 swallows it, and the run
  writes no block at all for the window, zero-filled or otherwise. With
  \<open>rasterio.windows.intersection\<close> in its place the empty intersection raises
  \<open>WindowError\<close>, so the \<open>np.zeros\<close> branch is not reached either.
\<close>

theorem ventana_sin_solape_no_se_escribe:
  "alinear_mnc entorno_rasterio ''EPSG:32721'' mnc_fuera (0, 0, 2, 1) 1 2 = Inl AttributeError
   \<and> procesar_ventana_mnc entorno_rasterio ndvi_ref 1 mnc_inv mnc_fuera (0, 1, 0, 2)
       = Inl AttributeError
   \<and> recortar_mnc_y_combinar entorno_rasterio ndvi_ref 1 mnc_inv mnc_fuera = Inr []
   \<and> alinear_mnc entorno_recorte ''EPSG:32721'' mnc_fuera (0, 0, 2, 1) 1 2 = Inl WindowError"
  by code_simp

section \<open>Properties of the season bands\<close>

lemma np_isin_excluidos: "np_isin x EXCLUDE_VALUES \<longleftrightarrow> x = Fin 0 \<or> x = Fin 255"
  by (auto simp: np_isin_def EXCLUDE_VALUES_def)

lemma banda_binaria_valores:
  "y \<in> set (concat (banda_binaria nodata chunk)) \<Longrightarrow> y = Fin 0 \<or> y = Fin 1"
  by (auto simp: banda_binaria_def split: if_splits)

lemma banda_binaria_forma: "map length (banda_binaria nodata chunk) = map length chunk"
  by (simp add: banda_binaria_def)

lemma banda_binaria_nth:
  assumes "i < length chunk" "j < length (chunk ! i)"
  shows "banda_binaria nodata chunk ! i ! j =
     (if chunk ! i ! j \<noteq> Fin 0 \<and> chunk ! i ! j \<noteq> Fin 255
         \<and> (case nodata of None \<Rightarrow> True | Some nd \<Rightarrow> flt_ne (chunk ! i ! j) nd)
      then Fin 1 else Fin 0)"
  using assms by (simp add: banda_binaria_def np_isin_excluidos)

lemma banda_binaria_zeros: "banda_binaria nodata (np_zeros f c) = np_zeros f c"
  by (simp add: banda_binaria_def np_zeros_def bloque_def np_isin_excluidos)

lemma procesar_ventana_mnc_intersect_bool:
  "\<exists>e. procesar_ventana_mnc (env\<lparr>intersect := rasterio_intersect\<rparr>) src_ndvi ref_count
          src_inv src_ver v = Inl e"
proof -
  obtain a b c d where v: "v = (a, b, c, d)" by (cases v)
  obtain e where "alinear_mnc (env\<lparr>intersect := rasterio_intersect\<rparr>) (r_crs src_ndvi) src_inv
      (windows_bounds (window_real (Window c a (d - c) (b - a))) (r_transform src_ndvi))
      (b - a) (d - c) = Inl e"
    using alinear_mnc_intersect_bool by blast
  then show ?thesis
    by (simp add: procesar_ventana_mnc_def v Let_def bind_e_def)
qed

lemma paso_mnc_intersect_bool:
  "paso_mnc (env\<lparr>intersect := rasterio_intersect\<rparr>) src_ndvi ref_count src_inv src_ver es v = es"
  using procesar_ventana_mnc_intersect_bool [of env src_ndvi ref_count src_inv src_ver v]
  by (auto simp: paso_mnc_def)

lemma foldl_paso_mnc_intersect_bool:
  "foldl (paso_mnc (env\<lparr>intersect := rasterio_intersect\<rparr>) src_ndvi ref_count src_inv src_ver)
     es vs = es"
  by (induction vs arbitrary: es) (simp_all add: paso_mnc_intersect_bool)

lemma recortar_intersect_bool:
  "recortar_mnc_y_combinar (env\<lparr>intersect := rasterio_intersect\<rparr>) src_ndvi ref_count
     src_inv src_ver = Inr []"
proof -
  obtain ws where "particion (r_height src_ndvi) (r_width src_ndvi) CHUNK_SIZE = Inr ws"
    by (auto simp: particion_def CHUNK_SIZE_def)
  then show ?thesis
    by (simp add: recortar_mnc_y_combinar_def bind_e_def foldl_paso_mnc_intersect_bool)
qed

text \<open>
  Claim C10, at a failing input. The season bands of the output raster are never written.
  With \<open>rasterio.windows.intersect\<close> as the library documents it (a test that returns
  a \<open>bool\<close>), and whatever the other library calls do, every window of every run raises
  at line 171 before the masks of lines 239 to 251 are computed, the handler of line 267
  drops the window, and the run ends having written no block to any band: neither the
  0.0 and 1.0 of an overlapping window nor the zeros of a window without overlap reach
  the file. For a reference raster of one row and two columns and a season raster on the
  same grid with the values 3 and 255, where the claim has the season bands hold 1.0 and
  0.0, the window raises \<open>AttributeError\<close> and the run writes nothing. With
  \<open>rasterio.windows.intersection\<close> in its place the same run writes the block
  \<open>[[1, 0]]\<close> to bands 2 and 3.
\<close>

theorem bandas_de_estacion_no_escritas:
  "recortar_mnc_y_combinar (env\<lparr>intersect := rasterio_intersect\<rparr>) src_ndvi ref_count
       src_inv src_ver = Inr []
   \<and> (\<exists>e. procesar_ventana_mnc (env\<lparr>intersect := rasterio_intersect\<rparr>) src_ndvi ref_count
             src_inv src_ver v = Inl e)
   \<and> banda_binaria (r_nodata mnc_inv) (map (map astype_float32) (leer mnc_inv (Window 0 0 2 1)))
       = [[Fin 1, Fin 0]]
   \<and> procesar_ventana_mnc entorno_rasterio ndvi_ref 1 mnc_inv mnc_inv (0, 1, 0, 2)
       = Inl AttributeError
   \<and> recortar_mnc_y_combinar entorno_rasterio ndvi_ref 1 mnc_inv mnc_inv = Inr []
   \<and> recortar_mnc_y_combinar entorno_recorte ndvi_ref 1 mnc_inv mnc_inv =
       Inr [(1, Window 0 0 2 1, [[Fin (3 / 10), Fin (3 / 10)]]),
            (2, Window 0 0 2 1, [[Fin 1, Fin 0]]),
            (3, Window 0 0 2 1, [[Fin 1, Fin 0]])]"
proof -
  have 1: "banda_binaria (r_nodata mnc_inv)
             (map (map astype_float32) (leer mnc_inv (Window 0 0 2 1))) = [[Fin 1, Fin 0]]"
    by code_simp
  have 2: "procesar_ventana_mnc entorno_rasterio ndvi_ref 1 mnc_inv mnc_inv (0, 1, 0, 2)
             = Inl AttributeError"
    by code_simp
  have 3: "recortar_mnc_y_combinar entorno_rasterio ndvi_ref 1 mnc_inv mnc_inv = Inr []"
    by code_simp
  have 4: "recortar_mnc_y_combinar entorno_recorte ndvi_ref 1 mnc_inv mnc_inv =
       Inr [(1, Window 0 0 2 1, [[Fin (3 / 10), Fin (3 / 10)]]),
            (2, Window 0 0 2 1, [[Fin 1, Fin 0]]),
            (3, Window 0 0 2 1, [[Fin 1, Fin 0]])]"
    by code_simp
  show ?thesis
    using recortar_intersect_bool procesar_ventana_mnc_intersect_bool 1 2 3 4 by blast
qed

section \<open>Properties of the georeferencer\<close>








section \<open>Properties of the band stacker\<close>
























section \<open>Properties of the geometry checks\<close>

lemma verificar_recortes_transform:
  "verificar_recortes src_ndvi (src_inv\<lparr>r_transform := t1\<rparr>) (src_ver\<lparr>r_transform := t2\<rparr>)
     = verificar_recortes src_ndvi src_inv src_ver"
  by (simp add: verificar_recortes_def)

lemma leer_recorte_transform: "leer_recorte (src\<lparr>r_transform := t\<rparr>) = leer_recorte src"
  by (simp add: leer_recorte_def leer_todo_def leer_def split: option.splits)

lemma combinar_recortes_transform:
  "combinar_recortes_con_ndvi src_ndvi nombres (src_inv\<lparr>r_transform := t1\<rparr>)
       (src_ver\<lparr>r_transform := t2\<rparr>)
     = combinar_recortes_con_ndvi src_ndvi nombres src_inv src_ver"
  unfolding combinar_recortes_con_ndvi_def
  by (simp only: verificar_recortes_transform leer_recorte_transform)

lemma combinar_recortes_exit:
  assumes "r_width src_inv \<noteq> r_width src_ndvi \<or> r_height src_inv \<noteq> r_height src_ndvi
         \<or> r_width src_ver \<noteq> r_width src_ndvi \<or> r_height src_ver \<noteq> r_height src_ndvi
         \<or> r_crs src_inv \<noteq> r_crs src_ndvi \<or> r_crs src_ver \<noteq> r_crs src_ndvi"
  shows "combinar_recortes_con_ndvi src_ndvi nombres src_inv src_ver = Inl (SystemExit 1)"
  using assms by (auto simp: combinar_recortes_con_ndvi_def verificar_recortes_def bind_e_def)

lemma combinar_recortes_pasa:
  assumes "r_width src_inv = r_width src_ndvi" "r_height src_inv = r_height src_ndvi"
    "r_width src_ver = r_width src_ndvi" "r_height src_ver = r_height src_ndvi"
    "r_crs src_inv = r_crs src_ndvi" "r_crs src_ver = r_crs src_ndvi"
  shows "verificar_recortes src_ndvi src_inv src_ver = Inr ()"
  using assms by (simp add: verificar_recortes_def)

lemma leer_rasters_geometria:
  "leer_rasters nd (map (otra_geometria c t) resto) = leer_rasters nd resto"
proof (induction nd resto rule: leer_rasters.induct)
  case (1 ref_nodata)
  show ?case by simp
next
  case (2 ref_nodata nombre e resto)
  then show ?case by (simp add: otra_geometria_def)
next
  case (3 ref_nodata nombre l resto)
  then show ?case by (simp add: otra_geometria_def manejar_nodata_def split: option.splits)
qed

lemma combinar_rasters_geometria:
  "combinar_rasters_ndvi (primero # map (otra_geometria c t) resto)
     = combinar_rasters_ndvi (primero # resto)"
proof -
  obtain nombre r where p: "primero = (nombre, r)" by (cases primero)
  show ?thesis
  proof (cases r)
    case (Inl e)
    then show ?thesis by (simp add: p combinar_rasters_ndvi_def)
  next
    case (Inr primer)
    then show ?thesis
      by (simp add: p combinar_rasters_ndvi_def leer_rasters_geometria)
  qed
qed

lemma combinar_rasters_forma:
  assumes "todos_archivos = (nombre, Inr primer) # resto"
    and "\<not> list_all (\<lambda>d. map length d = map length (manejar_nodata (l_nodata primer) primer))
             (map snd (leer_rasters (l_nodata primer) resto))"
  shows "combinar_rasters_ndvi todos_archivos = Inl ValueError"
  using assms by (simp add: combinar_rasters_ndvi_def np_stack_def bind_e_def)


text \<open>
  Claim C5, as amended. Script 9 checks once, before any band is read, that the width and
  the height of both season rasters equal the reference's, and then that both CRS equal the
  reference's; a violation ends the stage with exit status 1. The transform is not
  compared: replacing it in either raster changes nothing. Script 5 makes no check of its
  own and takes the first raster as the reference: the CRS and the transform of the other
  rasters are never read, and the one hard error is \<open>np.stack\<close>'s, raised when the arrays
  read do not all have the first one's shape.
\<close>

theorem verificacion_de_geometria:
  "(r_width src_inv \<noteq> r_width src_ndvi \<or> r_height src_inv \<noteq> r_height src_ndvi
      \<or> r_width src_ver \<noteq> r_width src_ndvi \<or> r_height src_ver \<noteq> r_height src_ndvi
      \<or> r_crs src_inv \<noteq> r_crs src_ndvi \<or> r_crs src_ver \<noteq> r_crs src_ndvi
    \<longrightarrow> combinar_recortes_con_ndvi src_ndvi nombres src_inv src_ver = Inl (SystemExit 1))
   \<and> (r_width src_inv = r_width src_ndvi \<and> r_height src_inv = r_height src_ndvi
      \<and> r_width src_ver = r_width src_ndvi \<and> r_height src_ver = r_height src_ndvi
      \<and> r_crs src_inv = r_crs src_ndvi \<and> r_crs src_ver = r_crs src_ndvi
    \<longrightarrow> verificar_recortes src_ndvi src_inv src_ver = Inr ())
   \<and> combinar_recortes_con_ndvi src_ndvi nombres (src_inv\<lparr>r_transform := t1\<rparr>)
         (src_ver\<lparr>r_transform := t2\<rparr>)
       = combinar_recortes_con_ndvi src_ndvi nombres src_inv src_ver
   \<and> (todos_archivos = (nombre, Inr primer) # resto
      \<and> \<not> list_all (\<lambda>d. map length d = map length (manejar_nodata (l_nodata primer) primer))
             (map snd (leer_rasters (l_nodata primer) resto))
    \<longrightarrow> combinar_rasters_ndvi todos_archivos = Inl ValueError)
   \<and> combinar_rasters_ndvi (primero # map (otra_geometria c t) resto)
       = combinar_rasters_ndvi (primero # resto)"
  using combinar_recortes_exit [of src_inv src_ndvi src_ver nombres]
    combinar_recortes_pasa [of src_inv src_ndvi src_ver]
    combinar_recortes_transform [where src_ndvi = src_ndvi and nombres = nombres
      and src_inv = src_inv and ?t1.0 = t1 and src_ver = src_ver and ?t2.0 = t2]
    combinar_rasters_forma [of todos_archivos nombre primer resto]
    combinar_rasters_geometria [of primero c t resto]
  by blast

theorem verificacion_de_geometria_witness:
  "r_width recorte_ancho \<noteq> r_width ndvi_ref
   \<and> combinar_recortes_con_ndvi ndvi_ref [''mediana''] recorte_inv recorte_ancho
       = Inl (SystemExit 1)
   \<and> verificar_recortes ndvi_ref recorte_inv recorte_ver = Inr ()
   \<and> combinar_rasters_ndvi [archivo_B1, archivo_B4] = Inl ValueError"
proof -
  have w: "r_width recorte_ancho \<noteq> r_width ndvi_ref"
    by (simp add: recorte_ancho_def ndvi_ref_def raster_de_def)
  have 1: "combinar_recortes_con_ndvi ndvi_ref [''mediana''] recorte_inv recorte_ancho
       = Inl (SystemExit 1)"
    using verificacion_de_geometria [where src_inv = recorte_inv and src_ndvi = ndvi_ref
        and src_ver = recorte_ancho and nombres = "[''mediana'']"] w
    by blast
  have e: "r_width recorte_inv = r_width ndvi_ref \<and> r_height recorte_inv = r_height ndvi_ref
      \<and> r_width recorte_ver = r_width ndvi_ref \<and> r_height recorte_ver = r_height ndvi_ref
      \<and> r_crs recorte_inv = r_crs ndvi_ref \<and> r_crs recorte_ver = r_crs ndvi_ref"
    by (simp add: recorte_inv_def recorte_ver_def ndvi_ref_def raster_de_def)
  have 2: "verificar_recortes ndvi_ref recorte_inv recorte_ver = Inr ()"
    using verificacion_de_geometria [where src_inv = recorte_inv and src_ndvi = ndvi_ref
        and src_ver = recorte_ver] e
    by blast
  have a: "[archivo_B1, archivo_B4] =
      (''2023-01'', Inr (lectura_de [[Fin 1, Fin 2], [Fin 3, Fin 4]] ''EPSG:32721''
                          (norte_arriba 10 0 20))) # [archivo_B4]"
    by (simp add: archivo_B1_def)
  have f: "\<not> list_all (\<lambda>d. map length d = map length
              (manejar_nodata (l_nodata (lectura_de [[Fin 1, Fin 2], [Fin 3, Fin 4]] ''EPSG:32721''
                          (norte_arriba 10 0 20)))
                 (lectura_de [[Fin 1, Fin 2], [Fin 3, Fin 4]] ''EPSG:32721''
                          (norte_arriba 10 0 20))))
             (map snd (leer_rasters (l_nodata (lectura_de [[Fin 1, Fin 2], [Fin 3, Fin 4]]
                          ''EPSG:32721'' (norte_arriba 10 0 20))) [archivo_B4]))"
    by code_simp
  have 3: "combinar_rasters_ndvi [archivo_B1, archivo_B4] = Inl ValueError"
    using verificacion_de_geometria [where todos_archivos = "[archivo_B1, archivo_B4]"
        and nombre = "''2023-01''" and resto = "[archivo_B4]"
        and primer = "lectura_de [[Fin 1, Fin 2], [Fin 3, Fin 4]] ''EPSG:32721''
                          (norte_arriba 10 0 20)"] a f
    by blast
  show ?thesis using w 1 2 3 by simp
qed

theorem verificacion_de_geometria_counterexample:
  "(case archivo_B3 of (n, r) \<Rightarrow> map_sum id l_crs r) = Inr ''EPSG:4326''
   \<and> (case archivo_B1 of (n, r) \<Rightarrow> map_sum id l_crs r) = Inr ''EPSG:32721''
   \<and> (case combinar_rasters_ndvi [archivo_B1, archivo_B3] of
         Inr sal \<Rightarrow> (s_crs sal, map fst (s_bandas sal))
       | Inl e \<Rightarrow> ([], []))
      = (''EPSG:32721'', [''mediana'', ''min'', ''max'', ''sd'', ''NDVI_2023-01'', ''NDVI_2023-03''])
   \<and> r_transform recorte_ver \<noteq> r_transform ndvi_ref
   \<and> (case combinar_recortes_con_ndvi ndvi_ref [''mediana''] recorte_inv recorte_ver of
         Inr bandas \<Rightarrow> bandas
       | Inl e \<Rightarrow> [])
      = [(''invierno'', [[Fin 3, NaN]]), (''verano'', [[Fin 7, Fin 7]]),
         (''mediana'', [[Fin (3 / 10), Fin (3 / 10)]])]"
proof -
  have 1: "(case archivo_B3 of (n, r) \<Rightarrow> map_sum id l_crs r) = Inr ''EPSG:4326''"
    "(case archivo_B1 of (n, r) \<Rightarrow> map_sum id l_crs r) = Inr ''EPSG:32721''"
    by (simp_all add: archivo_B3_def archivo_B1_def lectura_de_def)
  have 2: "(case combinar_rasters_ndvi [archivo_B1, archivo_B3] of
         Inr sal \<Rightarrow> (s_crs sal, map fst (s_bandas sal))
       | Inl e \<Rightarrow> ([], []))
      = (''EPSG:32721'', [''mediana'', ''min'', ''max'', ''sd'', ''NDVI_2023-01'', ''NDVI_2023-03''])"
    by (simp add: combinar_rasters_ndvi_def archivo_B1_def archivo_B3_def lectura_de_def
        manejar_nodata_def np_stack_def bind_e_def Let_def)
  have 3: "r_transform recorte_ver \<noteq> r_transform ndvi_ref"
    by (simp add: recorte_ver_def ndvi_ref_def raster_de_def norte_arriba_def)
  have 4: "(case combinar_recortes_con_ndvi ndvi_ref [''mediana''] recorte_inv recorte_ver of
         Inr bandas \<Rightarrow> bandas
       | Inl e \<Rightarrow> [])
      = [(''invierno'', [[Fin 3, NaN]]), (''verano'', [[Fin 7, Fin 7]]),
         (''mediana'', [[Fin (3 / 10), Fin (3 / 10)]])]"
    by code_simp
  show ?thesis using 1 2 3 4 by simp
qed

end
